theory Spec2Isabelle
  imports Complex_Main "HOL-Library.Code_Target_Nat"
begin

section \<open>Strings\<close>

text \<open>
  A Python \<^verbatim>\<open>str\<close> is a sequence of Unicode code points, so it is modelled as a list of
  natural numbers; \<open>str\<close> turns an ASCII literal into that form. Scores are Python floats in
  the source; they are modelled as real numbers, with the arithmetic written in the
  source's order.

  Character classes follow Python 3 for the code points below 256 (and, for white space,
  for all code points). Code points from 256 on are taken to be caseless and not to be
  letters or digits.
\<close>

type_synonym pystr = "nat list"

definition str :: "string \<Rightarrow> pystr" where
  "str s = map of_char s"

text \<open>\<^verbatim>\<open>str.isspace\<close> on one code point; also the class \<^verbatim>\<open>\s\<close> of \<^verbatim>\<open>re\<close> on str patterns.\<close>

definition is_space :: "nat \<Rightarrow> bool" where
  "is_space c \<longleftrightarrow>
     (9 \<le> c \<and> c \<le> 13) \<or> (28 \<le> c \<and> c \<le> 32) \<or> c = 133 \<or> c = 160 \<or> c = 5760 \<or>
     (8192 \<le> c \<and> c \<le> 8202) \<or> c = 8232 \<or> c = 8233 \<or> c = 8239 \<or> c = 8287 \<or> c = 12288"

definition is_ascii_upper :: "nat \<Rightarrow> bool" where
  "is_ascii_upper c \<longleftrightarrow> 65 \<le> c \<and> c \<le> 90"

definition is_ascii_lower :: "nat \<Rightarrow> bool" where
  "is_ascii_lower c \<longleftrightarrow> 97 \<le> c \<and> c \<le> 122"

definition is_ascii_alpha :: "nat \<Rightarrow> bool" where
  "is_ascii_alpha c \<longleftrightarrow> is_ascii_upper c \<or> is_ascii_lower c"

definition is_digit :: "nat \<Rightarrow> bool" where
  "is_digit c \<longleftrightarrow> 48 \<le> c \<and> c \<le> 57"

definition is_upper_cp :: "nat \<Rightarrow> bool" where
  "is_upper_cp c \<longleftrightarrow> is_ascii_upper c \<or> (192 \<le> c \<and> c \<le> 222 \<and> c \<noteq> 215)"

definition is_lower_cp :: "nat \<Rightarrow> bool" where
  "is_lower_cp c \<longleftrightarrow>
     is_ascii_lower c \<or> c = 170 \<or> c = 181 \<or> c = 186 \<or> (223 \<le> c \<and> c \<le> 255 \<and> c \<noteq> 247)"

definition is_cased :: "nat \<Rightarrow> bool" where
  "is_cased c \<longleftrightarrow> is_upper_cp c \<or> is_lower_cp c"

text \<open>The class \<^verbatim>\<open>\w\<close>: alphanumeric code points and the underscore.\<close>

definition is_word :: "nat \<Rightarrow> bool" where
  "is_word c \<longleftrightarrow>
     is_cased c \<or> is_digit c \<or> c = 95 \<or> c = 178 \<or> c = 179 \<or> c = 185 \<or>
     (188 \<le> c \<and> c \<le> 190)"

definition lower_cp :: "nat \<Rightarrow> nat" where
  "lower_cp c = (if is_upper_cp c then c + 32 else c)"

definition upper_cp :: "nat \<Rightarrow> nat" where
  "upper_cp c = (if is_ascii_lower c \<or> (224 \<le> c \<and> c \<le> 254 \<and> c \<noteq> 247) then c - 32 else c)"

definition lower :: "pystr \<Rightarrow> pystr" where
  "lower s = map lower_cp s"

definition lstrip :: "pystr \<Rightarrow> pystr" where
  "lstrip s = dropWhile is_space s"

definition rstrip :: "pystr \<Rightarrow> pystr" where
  "rstrip s = rev (dropWhile is_space (rev s))"

definition strip :: "pystr \<Rightarrow> pystr" where
  "strip s = lstrip (rstrip s)"

text \<open>\<^verbatim>\<open>s or ""\<close> for an optional string.\<close>

definition or_empty :: "pystr option \<Rightarrow> pystr" where
  "or_empty s = (case s of None \<Rightarrow> [] | Some t \<Rightarrow> t)"

text \<open>Truthiness of an optional string: present and not empty.\<close>

definition truthy :: "pystr option \<Rightarrow> bool" where
  "truthy s \<longleftrightarrow> or_empty s \<noteq> []"

definition startswith :: "'a list \<Rightarrow> 'a list \<Rightarrow> bool" where
  "startswith s p \<longleftrightarrow> take (length p) s = p"

text \<open>\<^verbatim>\<open>sub in s\<close> on strings.\<close>

fun contains :: "'a list \<Rightarrow> 'a list \<Rightarrow> bool" where
  "contains [] sub = (sub = [])"
| "contains (c # cs) sub = (startswith (c # cs) sub \<or> contains cs sub)"

text \<open>
  \<^verbatim>\<open>re.sub(r"[...]+", r, s)\<close> for a character class \<open>P\<close>: every maximal run of
  characters of the class becomes one copy of \<open>r\<close>. The flag says whether the previous
  character belonged to a run.
\<close>

fun sub_runs :: "(nat \<Rightarrow> bool) \<Rightarrow> pystr \<Rightarrow> bool \<Rightarrow> pystr \<Rightarrow> pystr" where
  "sub_runs P r inrun [] = []"
| "sub_runs P r inrun (c # cs) =
     (if P c then (if inrun then [] else r) @ sub_runs P r True cs
      else c # sub_runs P r False cs)"

text \<open>\<^verbatim>\<open>re.sub(r"\s+", " ", s)\<close>\<close>

definition collapse_ws :: "pystr \<Rightarrow> pystr" where
  "collapse_ws s = sub_runs is_space [32] False s"

text \<open>\<^verbatim>\<open>" ".join(parts)\<close>\<close>

fun join_sp :: "pystr list \<Rightarrow> pystr" where
  "join_sp [] = []"
| "join_sp [x] = x"
| "join_sp (x # y # ys) = x @ [32] @ join_sp (y # ys)"

section \<open>Title normalisation\<close>

text \<open>
  \<^verbatim>\<open>
  TITLE_CLEAN_RE = re.compile(r"[^a-z0-9\s]+")
  def normalize_title(s):
      s = (s or "").strip().lower()
      s = TITLE_CLEAN_RE.sub(" ", s)
      s = re.sub(r"\s+", " ", s).strip()
      return s
  \<close>
\<close>

definition title_clean_char :: "nat \<Rightarrow> bool" where
  "title_clean_char c \<longleftrightarrow> \<not> (is_ascii_lower c \<or> is_digit c \<or> is_space c)"

definition normalize_title :: "pystr \<Rightarrow> pystr" where
  "normalize_title s =
     strip (collapse_ws (sub_runs title_clean_char [32] False (lower (strip s))))"

section \<open>Sequence similarity (difflib.SequenceMatcher with no junk function)\<close>

text \<open>
  The source calls \<^verbatim>\<open>difflib.SequenceMatcher(None, a, b).ratio()\<close>. The matcher indexes
  the second sequence; when it has 200 elements or more, an element occurring more than
  \<open>len(b) // 100 + 1\<close> times is "popular" and is left out of the index.
\<close>

definition popular :: "'a list \<Rightarrow> 'a \<Rightarrow> bool" where
  "popular b x = (if 200 \<le> length b then length b div 100 + 1 < count_list b x else False)"

text \<open>
  \<open>j2len a b alo blo bhi i j\<close> is the entry that \<^verbatim>\<open>find_longest_match\<close> stores in
  \<^verbatim>\<open>newj2len[j]\<close> while it processes row \<open>i\<close>: the length of the longest run of indexed
  elements ending at \<open>a[i]\<close> and \<open>b[j]\<close>, or 0 when the entry is absent.
\<close>

fun j2len :: "'a list \<Rightarrow> 'a list \<Rightarrow> nat \<Rightarrow> nat \<Rightarrow> nat \<Rightarrow> nat \<Rightarrow> nat \<Rightarrow> nat" where
  "j2len a b alo blo bhi i j =
     (if alo \<le> i \<and> blo \<le> j \<and> j < bhi \<and> a ! i = b ! j \<and> \<not> popular b (b ! j)
      then (if alo < i \<and> 0 < j then j2len a b alo blo bhi (i - 1) (j - 1) else 0) + 1
      else 0)"

declare j2len.simps [simp del]

text \<open>One step of the inner loop: a strictly longer run replaces the best one.\<close>

definition scan_cell ::
  "'a list \<Rightarrow> 'a list \<Rightarrow> nat \<Rightarrow> nat \<Rightarrow> nat \<Rightarrow> nat \<Rightarrow> nat \<times> nat \<times> nat \<Rightarrow> nat \<Rightarrow> nat \<times> nat \<times> nat" where
  "scan_cell a b alo blo bhi i best j =
     (let k = j2len a b alo blo bhi i j
      in if snd (snd best) < k then (i + 1 - k, j + 1 - k, k) else best)"

definition scan_rows ::
  "'a list \<Rightarrow> 'a list \<Rightarrow> nat \<Rightarrow> nat \<Rightarrow> nat \<Rightarrow> nat \<Rightarrow> nat \<times> nat \<times> nat" where
  "scan_rows a b alo ahi blo bhi =
     foldl (\<lambda>best i. foldl (scan_cell a b alo blo bhi i) best [blo..<bhi])
       (alo, blo, 0) [alo..<ahi]"

text \<open>
  The two loops that extend the best run by equal elements on each side (popular
  elements included). With no junk function the two junk-only loops never run.
\<close>

function extend_left ::
  "'a list \<Rightarrow> 'a list \<Rightarrow> nat \<Rightarrow> nat \<Rightarrow> nat \<times> nat \<times> nat \<Rightarrow> nat \<times> nat \<times> nat" where
  "extend_left a b alo blo (besti, bestj, bestsize) =
     (if alo < besti \<and> blo < bestj \<and> a ! (besti - 1) = b ! (bestj - 1)
      then extend_left a b alo blo (besti - 1, bestj - 1, bestsize + 1)
      else (besti, bestj, bestsize))"
  by pat_completeness auto
termination
  by (relation "measure (\<lambda>(a, b, alo, blo, besti, bestj, bestsize). besti)") auto

function extend_right ::
  "'a list \<Rightarrow> 'a list \<Rightarrow> nat \<Rightarrow> nat \<Rightarrow> nat \<times> nat \<times> nat \<Rightarrow> nat \<times> nat \<times> nat" where
  "extend_right a b ahi bhi (besti, bestj, bestsize) =
     (if besti + bestsize < ahi \<and> bestj + bestsize < bhi
         \<and> a ! (besti + bestsize) = b ! (bestj + bestsize)
      then extend_right a b ahi bhi (besti, bestj, bestsize + 1)
      else (besti, bestj, bestsize))"
  by pat_completeness auto
termination
  by (relation "measure (\<lambda>(a, b, ahi, bhi, besti, bestj, bestsize). ahi - (besti + bestsize))") auto

declare extend_left.simps [simp del] extend_right.simps [simp del]

definition find_longest_match ::
  "'a list \<Rightarrow> 'a list \<Rightarrow> nat \<Rightarrow> nat \<Rightarrow> nat \<Rightarrow> nat \<Rightarrow> nat \<times> nat \<times> nat" where
  "find_longest_match a b alo ahi blo bhi =
     extend_right a b ahi bhi (extend_left a b alo blo (scan_rows a b alo ahi blo bhi))"

text \<open>
  The block that \<^verbatim>\<open>find_longest_match\<close> returns lies inside the range it was asked to
  search; this is what makes the recursion of \<^verbatim>\<open>get_matching_blocks\<close> terminate.
\<close>

lemma j2len_le: "j2len a b alo blo bhi i j \<le> i + 1 - alo"
proof (induction a b alo blo bhi i j rule: j2len.induct)
  case (1 a b alo blo bhi i j)
  show ?case
    using 1 by (subst j2len.simps) (auto split: if_splits)
qed

definition block_ok :: "nat \<Rightarrow> nat \<Rightarrow> nat \<times> nat \<times> nat \<Rightarrow> bool" where
  "block_ok alo ahi best \<longleftrightarrow>
     alo \<le> fst best \<and> (fst best + snd (snd best) \<le> ahi \<or> (snd (snd best) = 0 \<and> fst best = alo))"

lemma foldl_preserves:
  "Q init \<Longrightarrow> (\<And>s x. x \<in> set xs \<Longrightarrow> Q s \<Longrightarrow> Q (f s x)) \<Longrightarrow> Q (foldl f init xs)"
  by (induction xs arbitrary: init) auto

lemma scan_cell_ok:
  assumes "block_ok alo ahi best" "alo \<le> i" "i < ahi"
  shows "block_ok alo ahi (scan_cell a b alo blo bhi i best j)"
proof -
  have "j2len a b alo blo bhi i j \<le> i + 1 - alo" by (rule j2len_le)
  with assms show ?thesis
    by (auto simp: scan_cell_def block_ok_def Let_def)
qed

lemma scan_rows_ok: "block_ok alo ahi (scan_rows a b alo ahi blo bhi)"
  unfolding scan_rows_def
proof (rule foldl_preserves)
  show "block_ok alo ahi (alo, blo, 0)" by (simp add: block_ok_def)
next
  fix s i assume i: "i \<in> set [alo..<ahi]" and s: "block_ok alo ahi s"
  show "block_ok alo ahi (foldl (scan_cell a b alo blo bhi i) s [blo..<bhi])"
  proof (rule foldl_preserves)
    show "block_ok alo ahi s" by (rule s)
  next
    fix t j assume "block_ok alo ahi t"
    then show "block_ok alo ahi (scan_cell a b alo blo bhi i t j)"
      using i by (intro scan_cell_ok) auto
  qed
qed

lemma extend_left_ok:
  "block_ok alo ahi best \<Longrightarrow> block_ok alo ahi (extend_left a b alo blo best)"
proof (induction a b alo blo best rule: extend_left.induct)
  case (1 a b alo blo besti bestj bestsize)
  show ?case
  proof (cases "alo < besti \<and> blo < bestj \<and> a ! (besti - 1) = b ! (bestj - 1)")
    case True
    with 1(2) have "block_ok alo ahi (besti - 1, bestj - 1, bestsize + 1)"
      by (auto simp: block_ok_def)
    with 1(1) True show ?thesis by (subst extend_left.simps) simp
  next
    case False
    with 1(2) show ?thesis by (subst extend_left.simps) auto
  qed
qed

lemma extend_right_ok:
  "block_ok alo ahi best \<Longrightarrow> block_ok alo ahi (extend_right a b ahi bhi best)"
proof (induction a b ahi bhi best rule: extend_right.induct)
  case (1 a b ahi bhi besti bestj bestsize)
  show ?case
  proof (cases "besti + bestsize < ahi \<and> bestj + bestsize < bhi
         \<and> a ! (besti + bestsize) = b ! (bestj + bestsize)")
    case True
    with 1(2) have "block_ok alo ahi (besti, bestj, bestsize + 1)"
      by (auto simp: block_ok_def)
    with 1(1) True show ?thesis by (subst extend_right.simps) simp
  next
    case False
    with 1(2) show ?thesis by (subst extend_right.simps) auto
  qed
qed

lemma find_longest_match_ok:
  "block_ok alo ahi (find_longest_match a b alo ahi blo bhi)"
  unfolding find_longest_match_def
  by (intro extend_right_ok extend_left_ok scan_rows_ok)

lemma find_longest_match_bounds:
  assumes "find_longest_match a b alo ahi blo bhi = (i, j, k)" "k \<noteq> 0"
  shows "alo \<le> i \<and> i + k \<le> ahi"
  using find_longest_match_ok [of alo ahi a b blo bhi] assms
  by (auto simp: block_ok_def)

text \<open>
  \<^verbatim>\<open>get_matching_blocks\<close> takes the longest block of the range and then works on the
  ranges to its left and to its right; \<open>matching_total\<close> is the sum of the sizes of the
  blocks it collects, which is all that \<^verbatim>\<open>ratio\<close> reads.
\<close>

function matching_total :: "'a list \<Rightarrow> 'a list \<Rightarrow> nat \<Rightarrow> nat \<Rightarrow> nat \<Rightarrow> nat \<Rightarrow> nat" where
  "matching_total a b alo ahi blo bhi =
     (case find_longest_match a b alo ahi blo bhi of
        (i, j, k) \<Rightarrow>
          if k = 0 then 0
          else k + (if alo < i \<and> blo < j then matching_total a b alo i blo j else 0)
                 + (if i + k < ahi \<and> j + k < bhi then matching_total a b (i + k) ahi (j + k) bhi else 0))"
  by pat_completeness auto
termination
  apply (relation "measure (\<lambda>(a, b, alo, ahi, blo, bhi). ahi - alo)")
    apply simp
   apply (auto dest: find_longest_match_bounds [OF sym])
  done

declare matching_total.simps [simp del]

text \<open>\<^verbatim>\<open>ratio()\<close>: \<open>2.0 * matches / (len(a) + len(b))\<close>, and 1.0 for two empty sequences.\<close>

definition ratio :: "'a list \<Rightarrow> 'a list \<Rightarrow> real" where
  "ratio a b =
     (if length a + length b = 0 then 1
      else 2 * real (matching_total a b 0 (length a) 0 (length b)) / real (length a + length b))"

text \<open>
  The invariant of the scan of a sequence against itself, used below to show that the
  ratio of a sequence with itself is 1: the best block so far lies on the diagonal and is
  at least as long as every cell already visited.
\<close>

definition diag_ok :: "'a list \<Rightarrow> nat \<Rightarrow> nat \<Rightarrow> nat \<times> nat \<times> nat \<Rightarrow> bool" where
  "diag_ok s i m best \<longleftrightarrow>
     fst best = fst (snd best) \<and> fst best + snd (snd best) \<le> length s
     \<and> (\<forall>i' < i. \<forall>j < length s. j2len s s 0 0 (length s) i' j \<le> snd (snd best))
     \<and> (\<forall>j < m. j2len s s 0 0 (length s) i j \<le> snd (snd best))"

section \<open>Title similarity\<close>

record components =
  comp_meeting_type :: "pystr option"
  comp_participants :: "pystr list"
  comp_topic :: "pystr option"

definition common_names :: "pystr list" where
  "common_names = map str
     [''alex'', ''alx'', ''john'', ''jane'', ''mike'', ''sarah'', ''emily'', ''david'',
      ''james'', ''mary'', ''robert'', ''lisa'', ''william'', ''jennifer'', ''michael'']"

text \<open>\<^verbatim>\<open>title.split(':', 1)[1]\<close>, for a title that has a colon.\<close>

definition after_colon :: "pystr \<Rightarrow> pystr" where
  "after_colon t = drop 1 (dropWhile (\<lambda>c. c \<noteq> 58) t)"

definition extract_title_components :: "pystr \<Rightarrow> components" where
  "extract_title_components t =
     (let title_lower = lower t;
          mt = (if contains title_lower (str ''1:1'') \<or> contains title_lower (str ''1 on 1'')
                   \<or> contains title_lower (str ''1 1'') \<or> startswith title_lower (str ''1 1'')
                then Some (str ''1:1'')
                else if contains title_lower (str ''sync'') then Some (str ''sync'')
                else if contains title_lower (str ''standup'') then Some (str ''standup'')
                else if contains title_lower (str ''retro'') then Some (str ''retro'')
                else None);
          ps = filter (\<lambda>name. contains title_lower name) common_names;
          tp = (if 58 \<in> set t
                then (let topic_part = strip (after_colon t)
                      in if topic_part \<noteq> [] then Some (lower topic_part) else None)
                else None)
      in \<lparr>comp_meeting_type = mt, comp_participants = ps, comp_topic = tp\<rparr>)"

definition calculate_component_similarity :: "components \<Rightarrow> components \<Rightarrow> real" where
  "calculate_component_similarity comp_a comp_b =
     (let type_on = (truthy (comp_meeting_type comp_a) \<and> truthy (comp_meeting_type comp_b));
          score1 = (if type_on \<and> comp_meeting_type comp_a = comp_meeting_type comp_b
                    then 0.4 else 0);
          weight1 = (if type_on then 0.4 else 0);
          parts_on = (comp_participants comp_a \<noteq> [] \<and> comp_participants comp_b \<noteq> []);
          participants_a = set (comp_participants comp_a);
          participants_b = set (comp_participants comp_b);
          overlap = card (participants_a \<inter> participants_b);
          union = card (participants_a \<union> participants_b);
          participant_similarity = (if 0 < union then real overlap / real union else 0);
          score2 = (if parts_on then score1 + 0.4 * participant_similarity else score1);
          weight2 = (if parts_on then weight1 + 0.4 else weight1);
          topic_on = (truthy (comp_topic comp_a) \<and> truthy (comp_topic comp_b));
          score3 = (if topic_on
                    then score2 + 0.2 * ratio (or_empty (comp_topic comp_a)) (or_empty (comp_topic comp_b))
                    else score2);
          weight3 = (if topic_on then weight2 + 0.2 else weight2)
      in if 0 < weight3 then score3 / weight3 else 0)"

text \<open>
  The source first returns 0.0 when a component dictionary is empty; the dictionaries
  always hold their three keys, so that branch is never taken.
\<close>

definition enhanced_title_matching :: "pystr \<Rightarrow> pystr \<Rightarrow> real" where
  "enhanced_title_matching title_a title_b =
     (let components_a = extract_title_components title_a;
          components_b = extract_title_components title_b;
          component_score = calculate_component_similarity components_a components_b
      in if comp_meeting_type components_a = Some (str ''1:1'')
            \<and> comp_meeting_type components_b = Some (str ''1:1'')
            \<and> comp_participants components_a \<noteq> [] \<and> comp_participants components_b \<noteq> []
            \<and> 0 < card (set (comp_participants components_a) \<inter> set (comp_participants components_b))
         then min 1 (component_score + 0.3)
         else component_score)"

definition title_similarity :: "pystr \<Rightarrow> pystr \<Rightarrow> real" where
  "title_similarity a b =
     (let na = normalize_title a; nb = normalize_title b
      in if na = [] \<or> nb = [] then 0
         else max (ratio na nb) (enhanced_title_matching na nb))"

section \<open>Participants\<close>

text \<open>The user's configuration: the canonical self-name, its aliases, the window.\<close>

record config =
  canonical_name :: pystr
  aliases :: "pystr list"
  window_hours :: int

text \<open>The values of \<^verbatim>\<open>config.example.py\<close>.\<close>

definition default_config :: config where
  "default_config =
     \<lparr>canonical_name = str ''Your Name'',
      aliases = [str ''me'', str ''your-first-name''],
      window_hours = 36\<rparr>"

text \<open>
  \<^verbatim>\<open>re.sub(r"\([^)]*\)", "", s)\<close>: an opening parenthesis with a closing one somewhere
  after it is removed together with everything up to the first closing one.
\<close>

fun strip_parens :: "bool \<Rightarrow> pystr \<Rightarrow> pystr" where
  "strip_parens skip [] = []"
| "strip_parens skip (c # cs) =
     (if skip then (if c = 41 then strip_parens False cs else strip_parens True cs)
      else if c = 40 \<and> 41 \<in> set cs then strip_parens True cs
      else c # strip_parens False cs)"

definition person_char :: "nat \<Rightarrow> bool" where
  "person_char c \<longleftrightarrow> is_ascii_lower c \<or> c = 39 \<or> is_space c"

definition normalize_person_token :: "pystr \<Rightarrow> pystr" where
  "normalize_person_token s =
     strip (collapse_ws (map (\<lambda>c. if person_char c then c else 32)
       (strip_parens False (lower (strip s)))))"

text \<open>\<^verbatim>\<open>re.findall(r"[...]+", s)\<close>: the maximal runs of characters of a class.\<close>

fun runs :: "(nat \<Rightarrow> bool) \<Rightarrow> pystr \<Rightarrow> pystr \<Rightarrow> pystr list" where
  "runs P cur [] = (if cur = [] then [] else [cur])"
| "runs P cur (c # cs) =
     (if P c then runs P (cur @ [c]) cs
      else (if cur = [] then [] else [cur]) @ runs P [] cs)"

definition name_token_char :: "nat \<Rightarrow> bool" where
  "name_token_char c \<longleftrightarrow> is_ascii_alpha c \<or> c = 39"

definition tokenize_name :: "pystr \<Rightarrow> pystr list" where
  "tokenize_name s = runs name_token_char [] (lower s)"

definition alias_set :: "config \<Rightarrow> pystr set" where
  "alias_set cfg = set (map lower (aliases cfg))"

fun expand_aliases :: "config \<Rightarrow> pystr list \<Rightarrow> pystr list" where
  "expand_aliases cfg [] = []"
| "expand_aliases cfg (n # ns) =
     (let nl = lower (strip n)
      in if nl = [] then expand_aliases cfg ns
         else if nl \<in> alias_set cfg then canonical_name cfg # expand_aliases cfg ns
         else n # expand_aliases cfg ns)"

text \<open>
  \<^verbatim>\<open>re.split(r"[,&]| and ", s, flags=re.IGNORECASE)\<close>. The counter skips the rest of a
  separator \<^verbatim>\<open>" and "\<close> once its first character has matched.
\<close>

fun re_split_parts :: "nat \<Rightarrow> pystr \<Rightarrow> pystr \<Rightarrow> pystr list" where
  "re_split_parts skip cur [] = [cur]"
| "re_split_parts skip cur (c # cs) =
     (if 0 < skip then re_split_parts (skip - 1) cur cs
      else if c = 44 \<or> c = 38 then cur # re_split_parts 0 [] cs
      else if lower (take 5 (c # cs)) = str '' and '' then cur # re_split_parts 4 [] cs
      else re_split_parts 0 (cur @ [c]) cs)"

text \<open>\<^verbatim>\<open>str.title()\<close>\<close>

fun title_from :: "bool \<Rightarrow> pystr \<Rightarrow> pystr" where
  "title_from prev [] = []"
| "title_from prev (c # cs) =
     (if prev then lower_cp c else upper_cp c) # title_from (is_cased c) cs"

definition py_title :: "pystr \<Rightarrow> pystr" where
  "py_title s = title_from False s"

text \<open>
  The tail that \<^verbatim>\<open>split_participants_string\<close> and \<^verbatim>\<open>derive_db_participants\<close> share:
  normalise, expand aliases, title-case, drop what is empty.
\<close>

definition clean_names :: "config \<Rightarrow> pystr list \<Rightarrow> pystr list" where
  "clean_names cfg names =
     filter (\<lambda>p. p \<noteq> [])
       (map py_title (filter (\<lambda>p. p \<noteq> []) (expand_aliases cfg (map normalize_person_token names))))"

definition split_participants_string :: "config \<Rightarrow> pystr option \<Rightarrow> pystr list" where
  "split_participants_string cfg db_value =
     (if \<not> truthy db_value then []
      else clean_names cfg
             (filter (\<lambda>p. p \<noteq> [] \<and> strip p \<noteq> []) (re_split_parts 0 [] (or_empty db_value))))"

definition fuzzy_name_match :: "config \<Rightarrow> pystr \<Rightarrow> pystr \<Rightarrow> bool" where
  "fuzzy_name_match cfg want have =
     (let wt = tokenize_name (normalize_person_token want);
          ht = tokenize_name (normalize_person_token have)
      in if wt = [] \<or> ht = [] then False
         else (let wt' = (if list_ex (\<lambda>t. t \<in> alias_set cfg) wt
                          then wt @ tokenize_name (canonical_name cfg) else wt)
               in list_ex (\<lambda>t. t \<in> set ht) wt'))"

definition participant_overlap_fuzzy :: "config \<Rightarrow> pystr list \<Rightarrow> pystr list \<Rightarrow> real" where
  "participant_overlap_fuzzy cfg desired db_parts =
     (if desired = [] then 0
      else (let desired_norm = expand_aliases cfg desired;
                hits = length (filter (\<lambda>w. list_ex (fuzzy_name_match cfg w) db_parts) desired_norm)
            in real hits / real (max (length desired_norm) 1)))"

section \<open>Errors, rows and blocks\<close>

text \<open>The exceptions that the modelled functions can raise.\<close>

datatype py_error = TypeError | ValueError | OverflowError

text \<open>
  \<^verbatim>\<open>
  @dataclass
  class MeetingRow:
      id: str
      title: str
      participants: Optional[str]
      speakers_json: Optional[str]
      start: Optional[int]
      end: Optional[int]
      audio_transcript: Optional[str]
  \<close>
  The title is read as \<^verbatim>\<open>m.title or ""\<close> everywhere, so it is optional here too.
\<close>

record MeetingRow =
  m_id :: pystr
  m_title :: "pystr option"
  m_participants :: "pystr option"
  m_speakers_json :: "pystr option"
  m_start :: "int option"
  m_end :: "int option"
  m_audio_transcript :: "pystr option"

text \<open>
  A transcript block is a JSON object. The model keeps the keys that the source reads;
  a key that is absent (or null) is \<open>None\<close>, identifiers are kept in their printed form,
  and a text that is present is a string. A label field holds a string or an object with
  the keys \<^verbatim>\<open>name\<close>, \<^verbatim>\<open>display_name\<close> and \<^verbatim>\<open>label\<close>.
\<close>

datatype label_value = LStr pystr | LDict "pystr option" "pystr option" "pystr option"

record block =
  b_text :: "pystr option"
  b_speaker_id :: "pystr option"
  b_speakerId :: "pystr option"
  b_participant_id :: "pystr option"
  b_participantId :: "pystr option"
  b_source :: "pystr option"
  b_cluster :: "pystr option"
  b_speaker_name :: "label_value option"
  b_display_name :: "label_value option"
  b_name :: "label_value option"
  b_label :: "label_value option"
  b_speaker :: "label_value option"

text \<open>
  What the source takes from outside the repository: the configuration, and the two JSON
  readers (\<^verbatim>\<open>_parse_audio_blocks\<close> on a transcript blob, with \<open>None\<close> when it yields no
  block list, and the names that \<^verbatim>\<open>derive_db_participants\<close> reads out of a speakers
  document, empty when it cannot be read).
\<close>

record env =
  cfg :: config
  parse_audio_blocks :: "pystr \<Rightarrow> block list option"
  speakers_json_names :: "pystr \<Rightarrow> pystr list"

section \<open>Calendar\<close>

text \<open>
  Days are counted from 1970-01-01 in the proleptic Gregorian calendar, as
  \<^verbatim>\<open>datetime\<close> does.
\<close>

definition is_leap :: "int \<Rightarrow> bool" where
  "is_leap y \<longleftrightarrow> y mod 4 = 0 \<and> (y mod 100 \<noteq> 0 \<or> y mod 400 = 0)"

definition days_in_month :: "int \<Rightarrow> int \<Rightarrow> int" where
  "days_in_month y m =
     (if m = 2 then (if is_leap y then 29 else 28)
      else if m = 4 \<or> m = 6 \<or> m = 9 \<or> m = 11 then 30 else 31)"

definition days_from_civil :: "int \<Rightarrow> int \<Rightarrow> int \<Rightarrow> int" where
  "days_from_civil y m d =
     (let y' = (if m \<le> 2 then y - 1 else y);
          era = y' div 400;
          yoe = y' - era * 400;
          doy = (153 * (if 2 < m then m - 3 else m + 9) + 2) div 5 + d - 1;
          doe = yoe * 365 + yoe div 4 - yoe div 100 + doy
      in era * 146097 + doe - 719468)"

definition civil_from_days :: "int \<Rightarrow> int \<times> int \<times> int" where
  "civil_from_days z0 =
     (let z = z0 + 719468;
          era = z div 146097;
          doe = z - era * 146097;
          yoe = (doe - doe div 1460 + doe div 36524 - doe div 146096) div 365;
          doy = doe - (365 * yoe + yoe div 4 - yoe div 100);
          mp = (5 * doy + 2) div 153;
          d = doy - (153 * mp + 2) div 5 + 1;
          m = (if mp < 10 then mp + 3 else mp - 9);
          y = yoe + era * 400
      in (if m \<le> 2 then y + 1 else y, m, d))"

text \<open>The first and the last day that \<^verbatim>\<open>datetime\<close> can hold: 0001-01-01 and 9999-12-31.\<close>

definition min_day :: int where
  "min_day = - 719162"

definition max_day :: int where
  "max_day = 2932896"

definition ms_per_day :: int where
  "ms_per_day = 86400000"

definition ms_per_hour :: int where
  "ms_per_hour = 3600000"

definition digit_val :: "nat \<Rightarrow> int" where
  "digit_val c = int c - 48"

definition number_val :: "pystr \<Rightarrow> int" where
  "number_val s = foldl (\<lambda>acc c. acc * 10 + digit_val c) 0 s"

text \<open>
  \<^verbatim>\<open>datetime.strptime(s, "%Y-%m-%d")\<close>: four digits, a dash, a month written
  \<^verbatim>\<open>1[0-2]|0[1-9]|[1-9]\<close>, a dash, a day written \<^verbatim>\<open>3[01]|[12]\d|0[1-9]|[1-9]| [1-9]\<close>,
  and nothing after it; then the date must exist. \<open>None\<close> stands for ValueError.
\<close>

definition month_field :: "pystr \<Rightarrow> bool" where
  "month_field s \<longleftrightarrow>
     (case s of
        [c] \<Rightarrow> 49 \<le> c \<and> c \<le> 57
      | [c, d] \<Rightarrow> (c = 49 \<and> 48 \<le> d \<and> d \<le> 50) \<or> (c = 48 \<and> 49 \<le> d \<and> d \<le> 57)
      | _ \<Rightarrow> False)"

definition day_field :: "pystr \<Rightarrow> bool" where
  "day_field s \<longleftrightarrow>
     (case s of
        [c] \<Rightarrow> 49 \<le> c \<and> c \<le> 57
      | [c, d] \<Rightarrow> (c = 51 \<and> 48 \<le> d \<and> d \<le> 49) \<or> ((c = 49 \<or> c = 50) \<and> is_digit d)
                   \<or> ((c = 48 \<or> c = 32) \<and> 49 \<le> d \<and> d \<le> 57)
      | _ \<Rightarrow> False)"

definition strptime_ymd :: "pystr \<Rightarrow> (int \<times> int \<times> int) option" where
  "strptime_ymd s =
     (let ys = take 4 s; r1 = drop 4 s;
          ms = takeWhile (\<lambda>c. c \<noteq> 45) (drop 1 r1);
          r2 = drop (1 + length ms) r1;
          ds = drop 1 r2
      in if length ys = 4 \<and> list_all is_digit ys \<and> take 1 r1 = [45] \<and> month_field ms
            \<and> take 1 r2 = [45] \<and> day_field ds
         then (let y = number_val ys; m = number_val ms; d = number_val (dropWhile (\<lambda>c. c = 32) ds)
               in if 1 \<le> y \<and> d \<le> days_in_month y m then Some (y, m, d) else None)
         else None)"

text \<open>
  \<^verbatim>\<open>
  def local_day_bounds_ms(date_str):
      dt_noon_utc = datetime.strptime(date_str, "%Y-%m-%d").replace(tzinfo=timezone.utc) + timedelta(hours=12)
      half = WINDOW_HOURS * 60 * 60 * 1000
      center = int(dt_noon_utc.timestamp() * 1000)
      return center - half, center + half
  \<close>
  The date of a pending record comes out of a JSON file and may be null, which
  \<^verbatim>\<open>strptime\<close> answers with TypeError.
\<close>

definition noon_utc_ms :: "int \<times> int \<times> int \<Rightarrow> int" where
  "noon_utc_ms ymd = (case ymd of (y, m, d) \<Rightarrow> (days_from_civil y m d * 86400 + 43200) * 1000)"

definition local_day_bounds_ms :: "config \<Rightarrow> pystr option \<Rightarrow> py_error + int \<times> int" where
  "local_day_bounds_ms c date_str =
     (case date_str of
        None \<Rightarrow> Inl TypeError
      | Some s \<Rightarrow>
          (case strptime_ymd s of
             None \<Rightarrow> Inl ValueError
           | Some ymd \<Rightarrow>
               (let half = window_hours c * 60 * 60 * 1000;
                    center = noon_utc_ms ymd
                in Inr (center - half, center + half))))"

text \<open>\<^verbatim>\<open>"%04d"\<close> and \<^verbatim>\<open>"%02d"\<close> on a number that is not negative.\<close>

fun pad_digits :: "nat \<Rightarrow> nat \<Rightarrow> pystr" where
  "pad_digits 0 n = []"
| "pad_digits (Suc w) n = pad_digits w (n div 10) @ [48 + n mod 10]"

definition strftime_ymd :: "int \<times> int \<times> int \<Rightarrow> pystr" where
  "strftime_ymd ymd =
     (case ymd of (y, m, d) \<Rightarrow>
        pad_digits 4 (nat y) @ [45] @ pad_digits 2 (nat m) @ [45] @ pad_digits 2 (nat d))"

text \<open>
  \<^verbatim>\<open>
  def same_local_calendar_day(meeting_date, start_ms):
      if start_ms is None:
          return False
      dt_utc = datetime.fromtimestamp(start_ms / 1000, tz=timezone.utc)
      month = dt_utc.month
      offset_hours = -5 if 3 <= month <= 11 else -6
      dt_local = dt_utc + timedelta(hours=offset_hours)
      return dt_local.strftime("%Y-%m-%d") == meeting_date
  \<close>
  \<^verbatim>\<open>fromtimestamp\<close> raises (ValueError, or OverflowError for a very large number) when
  the instant is outside the years 1 to 9999, and the addition raises OverflowError when
  the local time would fall before the year 1. The year is printed with four digits.
\<close>

definition same_local_calendar_day :: "pystr \<Rightarrow> int option \<Rightarrow> py_error + bool" where
  "same_local_calendar_day meeting_date start_ms =
     (case start_ms of
        None \<Rightarrow> Inr False
      | Some t \<Rightarrow>
          (let day_utc = t div ms_per_day
           in if day_utc < min_day \<or> max_day < day_utc then Inl ValueError
              else (let month = fst (snd (civil_from_days day_utc));
                        offset_hours = (if 3 \<le> month \<and> month \<le> 11 then - 5 else - 6);
                        day_local = (t + offset_hours * ms_per_hour) div ms_per_day
                    in if day_local < min_day then Inl OverflowError
                       else Inr (strftime_ymd (civil_from_days day_local) = meeting_date))))"

section \<open>Candidate participants\<close>

text \<open>
  \<^verbatim>\<open>derive_db_participants(m, cur)\<close>: the names of the ContactMeeting table when a cursor is
  given and the table has names for the meeting, else the names of the speakers document,
  else the participants string. \<open>cur\<close> maps a meeting id to the names that
  \<^verbatim>\<open>get_contact_meeting_speakers\<close> returns for it (none on a database error).
\<close>

definition derive_db_participants ::
  "env \<Rightarrow> MeetingRow \<Rightarrow> (pystr \<Rightarrow> pystr list) option \<Rightarrow> pystr list" where
  "derive_db_participants e m cur =
     (let from_contact = (case cur of
                            None \<Rightarrow> []
                          | Some contact \<Rightarrow> clean_names (cfg e) (filter (\<lambda>n. n \<noteq> []) (contact (m_id m))));
          from_json = (if truthy (m_speakers_json m)
                       then clean_names (cfg e)
                              (filter (\<lambda>n. n \<noteq> []) (speakers_json_names e (or_empty (m_speakers_json m))))
                       else [])
      in if from_contact \<noteq> [] then from_contact
         else if from_json \<noteq> [] then from_json
         else split_participants_string (cfg e) (m_participants m))"

section \<open>Scoring\<close>

definition WEIGHT_TABLE :: "(pystr \<times> real \<times> real \<times> real) list" where
  "WEIGHT_TABLE =
     [(str ''1-on-1'', 0.70, 0.15, 0.15),
      (str ''internal-sync'', 0.65, 0.20, 0.15),
      (str ''external-sync'', 0.75, 0.10, 0.15),
      (str ''note-to-self'', 0.60, 0.10, 0.30),
      (str ''default'', 0.60, 0.25, 0.15)]"

text \<open>\<^verbatim>\<open>WEIGHT_TABLE.get(session_type, WEIGHT_TABLE["default"])\<close>, as (overlap, title, time).\<close>

definition weights_for :: "pystr \<Rightarrow> real \<times> real \<times> real" where
  "weights_for session_type =
     (case map_of WEIGHT_TABLE session_type of
        Some w \<Rightarrow> w
      | None \<Rightarrow> (0.60, 0.25, 0.15))"

definition CONF_THRESHOLDS :: "(pystr \<times> real) list" where
  "CONF_THRESHOLDS =
     [(str ''1-on-1'', 0.45),
      (str ''internal-sync'', 0.42),
      (str ''external-sync'', 0.35),
      (str ''note-to-self'', 0.35),
      (str ''default'', 0.40)]"

definition threshold_for :: "pystr \<Rightarrow> real" where
  "threshold_for session_type =
     (case map_of CONF_THRESHOLDS session_type of
        Some t \<Rightarrow> t
      | None \<Rightarrow> 0.40)"

text \<open>
  \<^verbatim>\<open>
  t_mid = (m.start if m.start is not None else center_ms + m.end if m.end is not None else center_ms)
  if m.start is not None and m.end is not None:
      t_mid = (m.start + m.end) // 2
  span = float(max(1, hi_ms - lo_ms))
  time_score = max(0.0, 1.0 - (abs((t_mid or center_ms) - center_ms) / span))
  \<close>
  The conditional expression groups as
  \<^verbatim>\<open>m.start if ... else ((center_ms + m.end) if ... else center_ms)\<close>.
\<close>

definition t_mid :: "int \<Rightarrow> MeetingRow \<Rightarrow> int" where
  "t_mid center_ms m =
     (case (m_start m, m_end m) of
        (Some s, Some e) \<Rightarrow> (s + e) div 2
      | (Some s, None) \<Rightarrow> s
      | (None, Some e) \<Rightarrow> center_ms + e
      | (None, None) \<Rightarrow> center_ms)"

definition time_score :: "int \<Rightarrow> int \<Rightarrow> int \<Rightarrow> MeetingRow \<Rightarrow> real" where
  "time_score center_ms lo_ms hi_ms m =
     (let t = t_mid center_ms m;
          span = real_of_int (max 1 (hi_ms - lo_ms))
      in max 0 (1 - \<bar>real_of_int ((if t = 0 then center_ms else t) - center_ms)\<bar> / span))"

text \<open>
  The two label patterns that are deleted from both texts.
  \<^verbatim>\<open>re.sub(r'Speaker \d+:\s*', '', s)\<close> and
  \<^verbatim>\<open>re.sub(r'\b[A-Z][a-z]+(?:\s+[A-Z][a-z]+)*:\s*', '', s)\<close>.
  A matcher gives the length of the match that starts at the head of the rest of the
  string, knowing the character before it; \<open>del_matches\<close> scans from the left and drops
  every match it meets.
\<close>

fun del_matches ::
  "(nat option \<Rightarrow> pystr \<Rightarrow> nat option) \<Rightarrow> nat \<Rightarrow> nat option \<Rightarrow> pystr \<Rightarrow> pystr" where
  "del_matches mt skip prev [] = []"
| "del_matches mt skip prev (c # cs) =
     (if 0 < skip then del_matches mt (skip - 1) (Some c) cs
      else (case mt prev (c # cs) of
              Some n \<Rightarrow> del_matches mt (n - 1) (Some c) cs
            | None \<Rightarrow> c # del_matches mt 0 (Some c) cs))"

definition match_speaker_label :: "nat option \<Rightarrow> pystr \<Rightarrow> nat option" where
  "match_speaker_label prev s =
     (if startswith s (str ''Speaker '')
      then (let ds = takeWhile is_digit (drop 8 s);
                r = drop (8 + length ds) s
            in if ds \<noteq> [] \<and> take 1 r = [58]
               then Some (8 + length ds + 1 + length (takeWhile is_space (drop 1 r)))
               else None)
      else None)"

datatype name_state = NStart | NFirstLower | NLower | NSpace

text \<open>
  The length of \<^verbatim>\<open>[A-Z][a-z]+(?:\s+[A-Z][a-z]+)*:\<close> at the head of a string. No other way
  of matching exists for the pattern: a word ends where the lower-case letters end, and
  what follows is the colon, or white space and the next word.
\<close>

fun name_label_len :: "name_state \<Rightarrow> nat \<Rightarrow> pystr \<Rightarrow> nat option" where
  "name_label_len st n [] = None"
| "name_label_len NStart n (c # cs) =
     (if is_ascii_upper c then name_label_len NFirstLower (n + 1) cs else None)"
| "name_label_len NFirstLower n (c # cs) =
     (if is_ascii_lower c then name_label_len NLower (n + 1) cs else None)"
| "name_label_len NLower n (c # cs) =
     (if is_ascii_lower c then name_label_len NLower (n + 1) cs
      else if c = 58 then Some (n + 1)
      else if is_space c then name_label_len NSpace (n + 1) cs
      else None)"
| "name_label_len NSpace n (c # cs) =
     (if is_space c then name_label_len NSpace (n + 1) cs
      else if is_ascii_upper c then name_label_len NFirstLower (n + 1) cs
      else None)"

definition match_name_label :: "nat option \<Rightarrow> pystr \<Rightarrow> nat option" where
  "match_name_label prev s =
     (if (case prev of None \<Rightarrow> True | Some p \<Rightarrow> \<not> is_word p)
      then (case name_label_len NStart 0 s of
              None \<Rightarrow> None
            | Some n \<Rightarrow> Some (n + length (takeWhile is_space (drop n s))))
      else None)"

definition strip_labels :: "pystr \<Rightarrow> pystr" where
  "strip_labels s =
     del_matches match_name_label 0 None (del_matches match_speaker_label 0 None s)"

text \<open>
  The quote replacements of the source, as the file has them: the double prime U+2033
  becomes a plain double quote, and the four other calls replace a plain quote by itself.
\<close>

definition normalize_quotes :: "pystr \<Rightarrow> pystr" where
  "normalize_quotes s = map (\<lambda>c. if c = 8243 then 34 else c) s"

definition block_text :: "block \<Rightarrow> pystr" where
  "block_text b = or_empty (b_text b)"

text \<open>The two cleaned texts that are compared first.\<close>

definition snippet_clean :: "pystr \<Rightarrow> pystr" where
  "snippet_clean transcript_snippet =
     strip_labels (normalize_quotes (collapse_ws (strip transcript_snippet)))"

definition beginning_clean :: "pystr \<Rightarrow> pystr \<Rightarrow> pystr" where
  "beginning_clean transcript_snippet beginning_text =
     strip_labels
       (collapse_ws (take (length (collapse_ws (strip transcript_snippet)) * 2) beginning_text))"

text \<open>
  The transcript part of \<^verbatim>\<open>compute_score\<close>. It runs inside \<^verbatim>\<open>try\<close>; with blocks whose
  texts are strings nothing in it raises.
\<close>

definition transcript_score :: "env \<Rightarrow> pystr option \<Rightarrow> MeetingRow \<Rightarrow> real" where
  "transcript_score e transcript_snippet m =
     (if truthy transcript_snippet \<and> truthy (m_audio_transcript m)
      then (case parse_audio_blocks e (or_empty (m_audio_transcript m)) of
              None \<Rightarrow> 0
            | Some blocks \<Rightarrow>
                (let beginning_text = strip (join_sp (map block_text (take 10 blocks)))
                 in if blocks = [] \<or> beginning_text = [] then 0
                    else (let sc = snippet_clean (or_empty transcript_snippet);
                              bc = beginning_clean (or_empty transcript_snippet) beginning_text;
                              similarity = ratio (lower sc) (lower bc);
                              ts1 = (if 0.8 < similarity then min 1 (similarity + 0.2) else similarity);
                              ts2 = (if contains (lower bc) (lower sc) then min 1 (ts1 + 0.1) else ts1)
                          in if ts2 < 0.3 \<and> 10 < length blocks
                             then (let extended_text = join_sp (map block_text (take 50 blocks));
                                       extended_clean = strip_labels (collapse_ws extended_text);
                                       ts3 = (if contains (lower extended_clean) (lower sc)
                                              then max ts2 0.4 else ts2);
                                       extended_similarity =
                                         ratio (lower sc) (take (length sc * 5) extended_clean)
                                   in max ts3 (extended_similarity * 0.8))
                             else ts2)))
      else 0)"

text \<open>
  The set adjustments, as (set_bonus, set_penalty). \<open>desired\<close> is the stripped list of the
  wanted participants.
\<close>

definition name_set :: "pystr list \<Rightarrow> pystr set" where
  "name_set ps = set (map lower ps)"

definition set_adjustments :: "pystr \<Rightarrow> pystr list \<Rightarrow> pystr list \<Rightarrow> real \<times> real" where
  "set_adjustments session_type desired db_parts =
     (let dset = name_set desired; bset = name_set db_parts
      in if desired = [] then (0, 0)
         else (let bonus1 = (if dset = bset then 0.25 else 0);
                   missing = card (dset - bset);
                   penalty1 =
                     (if dset = bset then 0
                      else (if dset \<subseteq> bset then min 0.12 (0.04 * real (card bset - card dset)) else 0)
                           + (if 0 < missing then min 0.35 (0.18 + 0.10 * real (missing - 1)) else 0))
               in if session_type = str ''1-on-1''
                  then (if card bset = 2 \<and> card dset = 2 \<and> dset = bset then (bonus1 + 0.12, penalty1)
                        else if 2 < card bset then (bonus1, penalty1 + 0.10)
                        else (bonus1, penalty1))
                  else (bonus1, penalty1)))"

definition group_size_penalty_of :: "pystr \<Rightarrow> pystr list \<Rightarrow> real" where
  "group_size_penalty_of session_type db_parts =
     (if session_type = str ''note-to-self'' \<and> 1 < length db_parts then 0.15 else 0)"

text \<open>\<^verbatim>\<open>round(x, 3)\<close>: to the nearest thousandth, a tie going to the even one.\<close>

definition py_round3 :: "real \<Rightarrow> real" where
  "py_round3 x =
     (let y = x * 1000; f = \<lfloor>y\<rfloor>; r = y - of_int f
      in of_int (if r < 1 / 2 then f else if 1 / 2 < r then f + 1
                 else if even f then f else f + 1) / 1000)"

text \<open>The dictionary \<^verbatim>\<open>parts\<close> that \<^verbatim>\<open>compute_score\<close> returns beside the composite.\<close>

record score_parts =
  overlap :: real
  title_score :: real
  time_score_r :: real
  transcript_score_r :: real
  same_day_bonus :: real
  set_bonus :: real
  set_penalty :: real
  group_size_penalty :: real
  composite :: real
  db_parts :: "pystr list"
  desired_parts :: "pystr list"

text \<open>\<^verbatim>\<open>[p.strip() for p in (desired_participants or []) if p and p.strip()]\<close>\<close>

definition stripped_desired :: "pystr list \<Rightarrow> pystr list" where
  "stripped_desired desired_participants =
     map strip (filter (\<lambda>p. p \<noteq> [] \<and> strip p \<noteq> []) desired_participants)"

text \<open>The weighted sum and the additive adjustments, in the source's order.\<close>

definition composite_of ::
  "pystr \<Rightarrow> pystr option \<Rightarrow> real \<Rightarrow> real \<Rightarrow> real \<Rightarrow> real \<Rightarrow> real \<Rightarrow> real \<Rightarrow> real \<Rightarrow> real \<Rightarrow> real" where
  "composite_of session_type transcript_snippet ov ts tm tr sdb sb sp gsp =
     (case weights_for session_type of
        (w_overlap, w_title, w_time) \<Rightarrow>
          if truthy transcript_snippet
          then (w_overlap * 0.2) * ov + (w_title * 0.2) * ts + (w_time * 0.5) * tm + 0.60 * tr
               + sdb + sb - sp - gsp
          else w_overlap * ov + w_title * ts + w_time * tm + sdb + sb - sp - gsp)"

definition compute_score ::
  "env \<Rightarrow> pystr \<Rightarrow> pystr \<Rightarrow> pystr option \<Rightarrow> pystr list \<Rightarrow> int \<Rightarrow> int \<Rightarrow> int \<Rightarrow> MeetingRow
     \<Rightarrow> (pystr \<Rightarrow> pystr list) option \<Rightarrow> pystr option \<Rightarrow> py_error + real \<times> score_parts" where
  "compute_score e session_type meeting_date needle_title desired_participants
       center_ms lo_ms hi_ms m cur transcript_snippet =
     (let dbp = derive_db_participants e m cur;
          desired = stripped_desired desired_participants;
          ov = participant_overlap_fuzzy (cfg e) desired dbp;
          ts = title_similarity (or_empty needle_title) (or_empty (m_title m));
          tm = time_score center_ms lo_ms hi_ms m
      in case same_local_calendar_day meeting_date (m_start m) of
           Inl err \<Rightarrow> Inl err
         | Inr same_day \<Rightarrow>
             (let sdb = (if same_day then 0.10 else 0);
                  tr = transcript_score e transcript_snippet m;
                  adj = set_adjustments session_type desired dbp;
                  gsp = group_size_penalty_of session_type dbp;
                  cscore = composite_of session_type transcript_snippet ov ts tm tr sdb (fst adj) (snd adj) gsp
              in Inr (cscore,
                   \<lparr>overlap = py_round3 ov, title_score = py_round3 ts, time_score_r = py_round3 tm,
                    transcript_score_r = py_round3 tr, same_day_bonus = py_round3 sdb,
                    set_bonus = py_round3 (fst adj), set_penalty = py_round3 (snd adj),
                    group_size_penalty = py_round3 gsp, composite = py_round3 cscore,
                    db_parts = dbp, desired_parts = desired\<rparr>)))"

section \<open>The record store\<close>

text \<open>
  The Quill database as the selector reads it: the rows of the table \<^verbatim>\<open>Meeting\<close> in
  storage order, each with its \<^verbatim>\<open>deleteDate\<close>, and the names that the table
  \<^verbatim>\<open>ContactMeeting\<close> gives for a meeting id. A database error inside the module
  \<^verbatim>\<open>database.py\<close> is answered there with no row; the store modelled here is one that
  can be read.
\<close>

record db_row =
  r_meeting :: MeetingRow
  r_deleteDate :: "int option"

record store =
  meetings :: "db_row list"
  contact_names :: "pystr \<Rightarrow> pystr list"

text \<open>
  The queries of \<^verbatim>\<open>database.py\<close> select the columns id, title, participants, start, end
  and audio_transcript, so \<^verbatim>\<open>row_to_meeting\<close> finds no speakers column in their rows.
\<close>

definition row_to_meeting :: "MeetingRow \<Rightarrow> MeetingRow" where
  "row_to_meeting r = r\<lparr>m_speakers_json := None\<rparr>"

text \<open>
  \<^verbatim>\<open>SELECT ... FROM Meeting WHERE deleteDate IS NULL AND id = ? LIMIT 1\<close>
\<close>

definition fetch_by_id :: "store \<Rightarrow> pystr \<Rightarrow> MeetingRow option" where
  "fetch_by_id st meeting_id =
     (case filter (\<lambda>r. r_deleteDate r = None \<and> m_id (r_meeting r) = meeting_id) (meetings st) of
        [] \<Rightarrow> None
      | r # _ \<Rightarrow> Some (row_to_meeting (r_meeting r)))"

text \<open>
  \<^verbatim>\<open>WHERE deleteDate IS NULL AND NOT (end < ? OR start > ?) ORDER BY start ASC LIMIT ?\<close>.
  A comparison with NULL is NULL in SQL, so a row is selected only when both bounds are
  present. Rows with equal starts are kept in storage order.
\<close>

definition overlaps_window :: "int \<Rightarrow> int \<Rightarrow> MeetingRow \<Rightarrow> bool" where
  "overlaps_window lo_ms hi_ms m =
     (case (m_start m, m_end m) of
        (Some s, Some e) \<Rightarrow> \<not> (e < lo_ms \<or> hi_ms < s)
      | _ \<Rightarrow> False)"

definition start_key :: "MeetingRow \<Rightarrow> int" where
  "start_key m = (case m_start m of Some s \<Rightarrow> s | None \<Rightarrow> 0)"

definition live_rows :: "store \<Rightarrow> MeetingRow list" where
  "live_rows st = map r_meeting (filter (\<lambda>r. r_deleteDate r = None) (meetings st))"

definition fetch_overlap_window :: "store \<Rightarrow> int \<Rightarrow> int \<Rightarrow> nat \<Rightarrow> MeetingRow list" where
  "fetch_overlap_window st lo_ms hi_ms limit =
     map row_to_meeting
       (take limit (sort_key start_key (filter (overlaps_window lo_ms hi_ms) (live_rows st))))"

text \<open>
  \<^verbatim>\<open>WHERE deleteDate IS NULL AND start BETWEEN ? AND ? ORDER BY start ASC LIMIT ?\<close>, the
  query of \<^verbatim>\<open>fetch_start_in_window\<close> without a title pattern. It selects the speakers
  column when the table has one.
\<close>

definition starts_in_window :: "int \<Rightarrow> int \<Rightarrow> MeetingRow \<Rightarrow> bool" where
  "starts_in_window lo_ms hi_ms m =
     (case m_start m of Some s \<Rightarrow> lo_ms \<le> s \<and> s \<le> hi_ms | None \<Rightarrow> False)"

definition fetch_start_in_window :: "store \<Rightarrow> int \<Rightarrow> int \<Rightarrow> nat \<Rightarrow> MeetingRow list" where
  "fetch_start_in_window st lo_ms hi_ms limit =
     take limit (sort_key start_key (filter (starts_in_window lo_ms hi_ms) (live_rows st)))"

section \<open>The selector\<close>

text \<open>
  A pending record is the JSON object that \<^verbatim>\<open>save_pending\<close> writes. A key whose value is
  null is \<open>None\<close>; the participants are \<^verbatim>\<open>pd.get("participants") or []\<close>.
\<close>

record pending =
  pd_meeting_date :: "pystr option"
  pd_meeting_title :: "pystr option"
  pd_session_type :: "pystr option"
  pd_participants :: "pystr list"
  pd_quill_meeting_id :: "pystr option"
  pd_quill_start_ms :: "int option"
  pd_quill_end_ms :: "int option"
  pd_quill_title :: "pystr option"
  pd_transcript_snippet :: "pystr option"

text \<open>Truthiness of an optional integer: present and not zero.\<close>

definition int_truthy :: "int option \<Rightarrow> bool" where
  "int_truthy x = (case x of None \<Rightarrow> False | Some v \<Rightarrow> v \<noteq> 0)"

text \<open>
  \<^verbatim>\<open>
  center = (lo_ms + hi_ms) // 2
  if pd.get("quill_start_ms") is not None or pd.get("quill_end_ms") is not None:
      qs, qe = pd.get("quill_start_ms"), pd.get("quill_end_ms")
      center = int(((qs or qe) + (qe or qs)) // 2) if (qs and qe) else int(qs or qe)
  \<close>
  \<^verbatim>\<open>int(None)\<close> raises TypeError.
\<close>

definition window_center :: "int \<Rightarrow> int \<Rightarrow> int option \<Rightarrow> int option \<Rightarrow> py_error + int" where
  "window_center lo_ms hi_ms qs qe =
     (if qs \<noteq> None \<or> qe \<noteq> None
      then (if int_truthy qs \<and> int_truthy qe
            then (case (qs, qe) of
                    (Some s, Some e) \<Rightarrow> Inr ((s + e) div 2)
                  | _ \<Rightarrow> Inl TypeError)
            else (case (if int_truthy qs then qs else qe) of
                    None \<Rightarrow> Inl TypeError
                  | Some v \<Rightarrow> Inr v))
      else Inr ((lo_ms + hi_ms) div 2))"

text \<open>
  The participant pre-filter of the candidate loop:
  \<^verbatim>\<open>
  if desired_participants and not transcript_snippet:
      dset = {p.lower() for p in desired_participants}
      bset = {p.lower() for p in cand_parts}
      overlap_count = len(dset.intersection(bset))
      if overlap_count == 0 and len(dset) >= 2:
          continue
  \<close>
\<close>

definition prefilter_skips :: "pystr list \<Rightarrow> pystr option \<Rightarrow> pystr list \<Rightarrow> bool" where
  "prefilter_skips desired_participants transcript_snippet cand_parts \<longleftrightarrow>
     desired_participants \<noteq> [] \<and> \<not> truthy transcript_snippet
     \<and> card (name_set desired_participants \<inter> name_set cand_parts) = 0
     \<and> 2 \<le> card (name_set desired_participants)"

text \<open>The candidate loop; an exception of \<^verbatim>\<open>compute_score\<close> ends it.\<close>

fun score_candidates ::
  "env \<Rightarrow> store \<Rightarrow> pystr \<Rightarrow> pystr \<Rightarrow> pystr option \<Rightarrow> pystr list \<Rightarrow> int \<Rightarrow> int \<Rightarrow> int
     \<Rightarrow> pystr option \<Rightarrow> MeetingRow list \<Rightarrow> py_error + (real \<times> MeetingRow \<times> score_parts) list" where
  "score_candidates e st session_type meeting_date look_title desired_participants
       center lo_ms hi_ms transcript_snippet [] = Inr []"
| "score_candidates e st session_type meeting_date look_title desired_participants
       center lo_ms hi_ms transcript_snippet (m # cands) =
     (if \<not> truthy (m_audio_transcript m)
         \<or> prefilter_skips desired_participants transcript_snippet
              (derive_db_participants e m (Some (contact_names st)))
      then score_candidates e st session_type meeting_date look_title desired_participants
             center lo_ms hi_ms transcript_snippet cands
      else (case compute_score e session_type meeting_date look_title desired_participants
                   center lo_ms hi_ms m (Some (contact_names st)) transcript_snippet of
              Inl err \<Rightarrow> Inl err
            | Inr (score, parts) \<Rightarrow>
                (case score_candidates e st session_type meeting_date look_title
                        desired_participants center lo_ms hi_ms transcript_snippet cands of
                   Inl err \<Rightarrow> Inl err
                 | Inr scored \<Rightarrow> Inr ((score, m, parts) # scored))))"

text \<open>
  The title fallback:
  \<^verbatim>\<open>
  best = None; best_s = 0.0
  for m in items:
      if not m or not m.audio_transcript: continue
      s = title_similarity(look_title or "", m.title or "")
      if s > best_s: best_s, best = s, m
  \<close>
\<close>

fun best_title :: "pystr \<Rightarrow> MeetingRow option \<times> real \<Rightarrow> MeetingRow list \<Rightarrow> MeetingRow option \<times> real" where
  "best_title look_title acc [] = acc"
| "best_title look_title acc (m # items) =
     (if \<not> truthy (m_audio_transcript m) then best_title look_title acc items
      else (let s = title_similarity look_title (or_empty (m_title m))
            in if snd acc < s then best_title look_title (Some m, s) items
               else best_title look_title acc items))"

type_synonym selection = "MeetingRow option \<times> pystr option \<times> (MeetingRow \<times> score_parts) list"

text \<open>
  The decision on the sorted candidates, steps 4 to 7 of the selection. \<open>scored\<close> is
  sorted, \<open>debug_rows\<close> holds its first 25 entries.
\<close>

definition decide ::
  "store \<Rightarrow> pystr \<Rightarrow> pystr \<Rightarrow> int \<Rightarrow> int \<Rightarrow> (real \<times> MeetingRow \<times> score_parts) list
     \<Rightarrow> (MeetingRow \<times> score_parts) list \<Rightarrow> selection" where
  "decide st session_type look_title lo_ms hi_ms scored debug_rows =
     (let thresh = threshold_for session_type;
          by_title =
            (case best_title look_title (None, 0) (fetch_start_in_window st lo_ms hi_ms 500) of
               (Some best, best_s) \<Rightarrow>
                 if 0.70 \<le> best_s then (Some best, Some (str ''title''), debug_rows)
                 else (None, None, debug_rows)
             | (None, best_s) \<Rightarrow> (None, None, debug_rows))
      in case scored of
           [] \<Rightarrow> by_title
         | (top_score, top_row, top_meta) # rest \<Rightarrow>
             (let desired = desired_parts top_meta;
                  min_overlap = (if session_type = str ''external-sync'' \<or> session_type = str ''internal-sync''
                                 then 0.60 else 0.50);
                  ok_overlap = (min_overlap \<le> overlap top_meta);
                  exact_set = (desired \<noteq> [] \<and> name_set desired = name_set (db_parts top_meta));
                  transcript_s = transcript_score_r top_meta;
                  title_s = title_score top_meta;
                  cscore = composite top_meta
              in if 0.15 \<le> transcript_s then (Some top_row, Some (str ''transcript''), debug_rows)
                 else if (thresh \<le> top_score \<and> (ok_overlap \<or> exact_set))
                         \<or> (0.9 \<le> overlap top_meta \<and> 0.1 \<le> transcript_s)
                 then (Some top_row, Some (str ''ranked_window''), debug_rows)
                 else if (0.50 \<le> overlap top_meta \<and> 0.20 \<le> title_s \<and> thresh - 0.05 \<le> cscore)
                         \<or> 0.3 \<le> transcript_s \<or> 0.25 \<le> title_s
                 then (Some top_row, Some (str ''ranked_overlap''), debug_rows)
                 else by_title))"

text \<open>
  Step 2 of the selection: the window of the meeting date and the candidates fetched for
  it, \<^verbatim>\<open>fetch_overlap_window(cur, con, lo_ms, hi_ms, limit=800)\<close>.
\<close>

definition step2_candidates :: "env \<Rightarrow> store \<Rightarrow> pending \<Rightarrow> py_error + MeetingRow list" where
  "step2_candidates e st pd =
     (case local_day_bounds_ms (cfg e) (pd_meeting_date pd) of
        Inl err \<Rightarrow> Inl err
      | Inr (lo_ms, hi_ms) \<Rightarrow> Inr (fetch_overlap_window st lo_ms hi_ms 800))"

text \<open>
  \<^verbatim>\<open>find_best_candidate(pd)\<close>. The store is \<open>None\<close> when the database file does not
  exist. The result is the exception raised, or the triple (row, reason, debug rows).
\<close>

definition find_best_candidate :: "env \<Rightarrow> store option \<Rightarrow> pending \<Rightarrow> py_error + selection" where
  "find_best_candidate e db pd =
     (let meeting_date = pd_meeting_date pd;
          meeting_title = pd_meeting_title pd;
          session_type = (if truthy (pd_session_type pd) then or_empty (pd_session_type pd)
                          else str ''default'');
          desired_participants = pd_participants pd
      in case db of
           None \<Rightarrow> Inr (None, None, [])
         | Some st \<Rightarrow>
             (case (if truthy (pd_quill_meeting_id pd)
                    then (case fetch_by_id st (or_empty (pd_quill_meeting_id pd)) of
                            Some row \<Rightarrow> if truthy (m_audio_transcript row) then Some row else None
                          | None \<Rightarrow> None)
                    else None) of
                Some row \<Rightarrow> Inr (Some row, Some (str ''id''), [])
              | None \<Rightarrow>
                  (case local_day_bounds_ms (cfg e) meeting_date of
                     Inl err \<Rightarrow> Inl err
                   | Inr (lo_ms, hi_ms) \<Rightarrow>
                       (case window_center lo_ms hi_ms (pd_quill_start_ms pd) (pd_quill_end_ms pd) of
                          Inl err \<Rightarrow> Inl err
                        | Inr center \<Rightarrow>
                            (case step2_candidates e st pd of
                               Inl err \<Rightarrow> Inl err
                             | Inr cands \<Rightarrow>
                                 (let look_title = (if truthy (pd_quill_title pd) then pd_quill_title pd
                                                    else meeting_title);
                                      transcript_snippet = pd_transcript_snippet pd
                                  in case score_candidates e st session_type (or_empty meeting_date)
                                            look_title desired_participants center lo_ms hi_ms
                                            transcript_snippet cands of
                                       Inl err \<Rightarrow> Inl err
                                     | Inr scored0 \<Rightarrow>
                                         (let scored = sort_key (\<lambda>t. - fst t) scored0;
                                              debug_rows = map snd (take 25 scored)
                                          in Inr (decide st session_type (or_empty look_title)
                                                    lo_ms hi_ms scored debug_rows))))))))"

section \<open>Speaker attribution\<close>

text \<open>
  A Python dictionary keeps its keys in insertion order, and the source counts over the
  values of the mapping, so a dictionary is an association list here: an assignment to a
  key that exists replaces its value in place, a new key goes to the end.
\<close>

type_synonym speaker_map = "(pystr \<times> pystr) list"

definition has_key :: "('k \<times> 'v) list \<Rightarrow> 'k \<Rightarrow> bool" where
  "has_key mp k \<longleftrightarrow> k \<in> set (map fst mp)"

definition assign :: "('k \<times> 'v) list \<Rightarrow> 'k \<Rightarrow> 'v \<Rightarrow> ('k \<times> 'v) list" where
  "assign mp k v =
     (if has_key mp k then map (\<lambda>kv. if fst kv = k then (k, v) else kv) mp
      else mp @ [(k, v)])"

text \<open>The decimal digits of a number, as \<^verbatim>\<open>str(n)\<close> prints them.\<close>

fun decimal :: "nat \<Rightarrow> pystr" where
  "decimal n = (if n < 10 then [48 + n] else decimal (n div 10) @ [48 + n mod 10])"

declare decimal.simps [simp del]

text \<open>
  \<^verbatim>\<open>
  def _pick_me_speaker_id(blocks):
      counts = {}
      for b in blocks:
          sid = b.get("speaker_id")
          src = str(b.get("source", "")).lower()
          if sid is None or not src:
              continue
          if src in {"mic", "local", "local-user"}:
              sid_str = str(sid)
              counts[sid_str] = counts.get(sid_str, 0) + 1
      if not counts:
          return None
      return sorted(counts.items(), key=lambda kv: kv[1], reverse=True)[0][0]
  \<close>
\<close>

definition local_source :: "pystr \<Rightarrow> bool" where
  "local_source src \<longleftrightarrow> src = str ''mic'' \<or> src = str ''local'' \<or> src = str ''local-user''"

fun count_local :: "(pystr \<times> nat) list \<Rightarrow> block list \<Rightarrow> (pystr \<times> nat) list" where
  "count_local counts [] = counts"
| "count_local counts (b # bs) =
     (case b_speaker_id b of
        None \<Rightarrow> count_local counts bs
      | Some sid \<Rightarrow>
          if local_source (lower (or_empty (b_source b)))
          then count_local
                 (assign counts sid (case map_of counts sid of None \<Rightarrow> 1 | Some n \<Rightarrow> n + 1)) bs
          else count_local counts bs)"

definition pick_me_speaker_id :: "block list \<Rightarrow> pystr option" where
  "pick_me_speaker_id blocks =
     (case sort_key (\<lambda>kv. - int (snd kv)) (count_local [] blocks) of
        [] \<Rightarrow> None
      | kv # _ \<Rightarrow> Some (fst kv))"

text \<open>
  \<^verbatim>\<open>
  def _speaker_key(block, idx):
      for k in ("speaker_id", "speakerId", "participant_id", "participantId"):
          if block.get(k) is not None:
              return f"id:{block[k]}"
      if block.get("source"):
          return f"src:{block['source']}"
      if block.get("cluster") is not None:
          return f"clu:{block['cluster']}"
      return f"idx:{idx}"
  \<close>
\<close>

definition speaker_key :: "block \<Rightarrow> nat \<Rightarrow> pystr" where
  "speaker_key b idx =
     (case b_speaker_id b of Some v \<Rightarrow> str ''id:'' @ v | None \<Rightarrow>
      (case b_speakerId b of Some v \<Rightarrow> str ''id:'' @ v | None \<Rightarrow>
       (case b_participant_id b of Some v \<Rightarrow> str ''id:'' @ v | None \<Rightarrow>
        (case b_participantId b of Some v \<Rightarrow> str ''id:'' @ v | None \<Rightarrow>
         (if truthy (b_source b) then str ''src:'' @ or_empty (b_source b)
          else (case b_cluster b of Some v \<Rightarrow> str ''clu:'' @ v
                | None \<Rightarrow> str ''idx:'' @ decimal idx))))))"

text \<open>
  \<^verbatim>\<open>_extract_explicit_label\<close>: the first of the keys speaker_name, display_name, name,
  label, speaker that holds a string that is not blank, or an object with such a string
  under name, display_name or label; stripped.
\<close>

definition nonblank :: "pystr option \<Rightarrow> pystr option" where
  "nonblank v = (case v of None \<Rightarrow> None | Some s \<Rightarrow> if strip s \<noteq> [] then Some (strip s) else None)"

definition first_some :: "'a option list \<Rightarrow> 'a option" where
  "first_some xs = (case filter (\<lambda>x. x \<noteq> None) xs of [] \<Rightarrow> None | x # _ \<Rightarrow> x)"

definition label_of :: "label_value option \<Rightarrow> pystr option" where
  "label_of v =
     (case v of
        None \<Rightarrow> None
      | Some (LStr s) \<Rightarrow> nonblank (Some s)
      | Some (LDict n d l) \<Rightarrow> first_some [nonblank n, nonblank d, nonblank l])"

definition extract_explicit_label :: "block \<Rightarrow> pystr option" where
  "extract_explicit_label b =
     first_some [label_of (b_speaker_name b), label_of (b_display_name b), label_of (b_name b),
                 label_of (b_label b), label_of (b_speaker b)]"

text \<open>
  \<^verbatim>\<open>
  def _norm_name(s):
      return re.sub(r"\s+", " ", (s or "").strip().lower())

  def _is_me(name):
      n = _norm_name(name)
      if not n: return False
      if n in ME_ALIASES: return True
      tokens = n.split()
      canonical_tokens = {t.lower() for t in MY_CANONICAL_NAME.split()}
      return any(token.lower() in canonical_tokens for token in tokens)
  \<close>
\<close>

definition norm_name :: "pystr \<Rightarrow> pystr" where
  "norm_name s = collapse_ws (lower (strip s))"

definition py_split :: "pystr \<Rightarrow> pystr list" where
  "py_split s = runs (\<lambda>c. \<not> is_space c) [] s"

definition is_me :: "config \<Rightarrow> pystr \<Rightarrow> bool" where
  "is_me c name =
     (let n = norm_name name
      in if n = [] then False
         else if n \<in> set (aliases c) then True
         else list_ex (\<lambda>token. lower token \<in> set (map lower (py_split (canonical_name c))))
                (py_split n))"

text \<open>
  \<^verbatim>\<open>_looks_like_title_fragment(label, quill_title, meeting_title)\<close>
\<close>

definition before_colon :: "pystr \<Rightarrow> pystr" where
  "before_colon t = takeWhile (\<lambda>c. c \<noteq> 58) t"

definition title_like :: "pystr \<Rightarrow> pystr \<Rightarrow> bool" where
  "title_like nl t =
     (let nt = normalize_title (before_colon t)
      in if nt = [] then False
         else (nl \<noteq> [] \<and> (startswith nt nl \<or> contains nt nl)) \<or> 0.78 \<le> ratio nl nt)"

definition looks_like_title_fragment :: "pystr \<Rightarrow> pystr option \<Rightarrow> pystr option \<Rightarrow> bool" where
  "looks_like_title_fragment label quill_title meeting_title =
     (if label = [] then False
      else if contains label (str ''<>'') then True
      else title_like (normalize_title label) (or_empty quill_title)
           \<or> title_like (normalize_title label) (or_empty meeting_title))"

text \<open>
  The inline prefix \<^verbatim>\<open>re.match(r"^([A-Za-z][A-Za-z .'-]{0,40}?):\s+", txt)\<close>: the group is
  what stands before the first colon, when that is a letter followed by at most 40
  letters, spaces, dots, apostrophes or hyphens, and white space follows the colon.
\<close>

definition prefix_char :: "nat \<Rightarrow> bool" where
  "prefix_char c \<longleftrightarrow> is_ascii_alpha c \<or> c = 32 \<or> c = 46 \<or> c = 39 \<or> c = 45"

definition inline_prefix :: "pystr \<Rightarrow> pystr option" where
  "inline_prefix txt =
     (let g = before_colon txt; r = drop (length g) txt
      in if g \<noteq> [] \<and> length g \<le> 41 \<and> is_ascii_alpha (hd g) \<and> list_all prefix_char g
            \<and> take 1 r = [58] \<and> list_ex is_space (take 1 (drop 1 r))
         then Some g else None)"

text \<open>The state of the two loops: the mapping, the used names, the preference index.\<close>

record attribution =
  mapping :: speaker_map
  used_names :: "pystr list"
  next_non_me_ix :: nat

definition bind_name :: "attribution \<Rightarrow> pystr \<Rightarrow> pystr \<Rightarrow> attribution" where
  "bind_name a key name =
     a\<lparr>mapping := assign (mapping a) key name, used_names := used_names a @ [norm_name name]\<rparr>"

text \<open>Seeding from the explicit labels.\<close>

fun seed_labels ::
  "pystr option \<Rightarrow> pystr option \<Rightarrow> attribution \<Rightarrow> (nat \<times> block) list \<Rightarrow> attribution" where
  "seed_labels quill_title meeting_title a [] = a"
| "seed_labels quill_title meeting_title a ((idx, b) # rest) =
     (case extract_explicit_label b of
        Some explicit \<Rightarrow>
          if \<not> looks_like_title_fragment explicit quill_title meeting_title
          then seed_labels quill_title meeting_title (bind_name a (speaker_key b idx) explicit) rest
          else seed_labels quill_title meeting_title a rest
      | None \<Rightarrow> seed_labels quill_title meeting_title a rest)"

text \<open>The saved overrides, for keys that are not bound yet.\<close>

fun merge_overrides :: "attribution \<Rightarrow> (pystr \<times> pystr) list \<Rightarrow> attribution" where
  "merge_overrides a [] = a"
| "merge_overrides a ((k, v) # rest) =
     (if \<not> has_key (mapping a) k \<and> v \<noteq> [] then merge_overrides (bind_name a k v) rest
      else merge_overrides a rest)"

text \<open>
  \<^verbatim>\<open>
  while next_non_me_ix < len(pref_non_me) and _norm_name(pref_non_me[next_non_me_ix]) in used_names:
      next_non_me_ix += 1
  \<close>
\<close>

function skip_used :: "pystr list \<Rightarrow> pystr list \<Rightarrow> nat \<Rightarrow> nat" where
  "skip_used pref_non_me used ix =
     (if ix < length pref_non_me \<and> norm_name (pref_non_me ! ix) \<in> set used
      then skip_used pref_non_me used (ix + 1) else ix)"
  by pat_completeness auto
termination
  by (relation "measure (\<lambda>(pref_non_me, used, ix). length pref_non_me - ix)") auto

declare skip_used.simps [simp del]

definition self_source :: "pystr \<Rightarrow> bool" where
  "self_source src \<longleftrightarrow>
     src = str ''me'' \<or> src = str ''local'' \<or> src = str ''local_user'' \<or> src = str ''self''"

text \<open>The walk over the blocks that binds the remaining keys.\<close>

fun assign_remaining ::
  "config \<Rightarrow> pystr list \<Rightarrow> attribution \<Rightarrow> (nat \<times> block) list \<Rightarrow> attribution" where
  "assign_remaining c pref_non_me a [] = a"
| "assign_remaining c pref_non_me a ((idx, b) # rest) =
     (let key = speaker_key b idx
      in if has_key (mapping a) key then assign_remaining c pref_non_me a rest
         else if self_source (norm_name (or_empty (b_source b)))
         then assign_remaining c pref_non_me (bind_name a key (canonical_name c)) rest
         else (case (case inline_prefix (strip (or_empty (b_text b))) of
                       None \<Rightarrow> None
                     | Some g \<Rightarrow> if is_me c g then None else Some (strip g)) of
                 Some guessed \<Rightarrow> assign_remaining c pref_non_me (bind_name a key guessed) rest
               | None \<Rightarrow>
                   (let ix = skip_used pref_non_me (used_names a) (next_non_me_ix a)
                    in if ix < length pref_non_me
                       then assign_remaining c pref_non_me
                              ((bind_name a key (pref_non_me ! ix))\<lparr>next_non_me_ix := ix + 1\<rparr>) rest
                       else (let anon_ix = length (filter (\<lambda>kv. startswith (snd kv) (str ''Speaker ''))
                                                     (mapping a))
                             in assign_remaining c pref_non_me
                                  (a\<lparr>mapping := assign (mapping a) key
                                                   (str ''Speaker '' @ decimal (anon_ix + 1)),
                                     next_non_me_ix := ix\<rparr>) rest))))"

text \<open>
  \<^verbatim>\<open>_first_appearance_mapping(blocks, pref_names, overrides, quill_title, meeting_title)\<close>
\<close>

definition first_appearance_mapping ::
  "config \<Rightarrow> block list \<Rightarrow> pystr list \<Rightarrow> (pystr \<times> pystr) list \<Rightarrow> pystr option \<Rightarrow> pystr option
     \<Rightarrow> speaker_map" where
  "first_appearance_mapping c blocks pref_names overrides quill_title meeting_title =
     (let a0 = \<lparr>mapping = [], used_names = [], next_non_me_ix = 0\<rparr>;
          a1 = (case pick_me_speaker_id blocks of
                  None \<Rightarrow> a0
                | Some me_sid \<Rightarrow> bind_name a0 (str ''id:'' @ me_sid) (canonical_name c));
          a2 = seed_labels quill_title meeting_title a1 (enumerate 0 blocks);
          a3 = merge_overrides a2 overrides;
          pref_non_me = filter (\<lambda>n. \<not> is_me c n) pref_names;
          a4 = assign_remaining c pref_non_me a3 (enumerate 0 blocks)
      in map (\<lambda>kv. if is_me c (snd kv) then (fst kv, canonical_name c) else kv) (mapping a4))"

section \<open>Concrete inputs\<close>

text \<open>
  The inputs at which the theorems below are evaluated. \<open>text_env\<close> has the example
  configuration and a transcript reader that yields one block holding the blob as its
  text; \<open>noon_2024_03_10\<close> is 2024-03-10 12:00 UTC in milliseconds.
\<close>

definition plain_block :: "pystr option \<Rightarrow> pystr option \<Rightarrow> pystr option \<Rightarrow> block" where
  "plain_block sid src txt =
     \<lparr>b_text = txt, b_speaker_id = sid, b_speakerId = None, b_participant_id = None,
      b_participantId = None, b_source = src, b_cluster = None, b_speaker_name = None,
      b_display_name = None, b_name = None, b_label = None, b_speaker = None\<rparr>"

definition text_env :: env where
  "text_env =
     \<lparr>cfg = default_config,
      parse_audio_blocks = (\<lambda>s. Some [plain_block None None (Some s)]),
      speakers_json_names = (\<lambda>s. [])\<rparr>"

definition noon_2024_03_10 :: int where
  "noon_2024_03_10 = 1710072000000"

definition row_at :: "pystr \<Rightarrow> int option \<Rightarrow> int option \<Rightarrow> pystr option \<Rightarrow> pystr option \<Rightarrow> MeetingRow" where
  "row_at i s e ps audio =
     \<lparr>m_id = i, m_title = None, m_participants = ps, m_speakers_json = None,
      m_start = s, m_end = e, m_audio_transcript = audio\<rparr>"

definition store_of :: "MeetingRow list \<Rightarrow> store" where
  "store_of rows =
     \<lparr>meetings = map (\<lambda>m. \<lparr>r_meeting = m, r_deleteDate = None\<rparr>) rows,
      contact_names = (\<lambda>i. [])\<rparr>"

definition pending_on :: "pystr \<Rightarrow> pending" where
  "pending_on date =
     \<lparr>pd_meeting_date = Some date, pd_meeting_title = Some (str ''x''), pd_session_type = None,
      pd_participants = [], pd_quill_meeting_id = None, pd_quill_start_ms = None,
      pd_quill_end_ms = None, pd_quill_title = None, pd_transcript_snippet = None\<rparr>"

text \<open>A two-person meeting at noon of the day, and a meeting 30 hours after that noon.\<close>

definition jane_bob_row :: MeetingRow where
  "jane_bob_row =
     row_at (str ''a'') (Some noon_2024_03_10) (Some noon_2024_03_10)
       (Some (str ''Jane Doe, Bob Roe'')) (Some (str ''hi''))"

definition late_row :: MeetingRow where
  "late_row =
     row_at (str ''b'') (Some (noon_2024_03_10 + 30 * 3600000)) (Some (noon_2024_03_10 + 30 * 3600000))
       None (Some (str ''hi''))"




text \<open>
  A meeting that starts and ends at the instant 0 (1970-01-01 00:00 UTC), and a pending
  record of that day whose Quill bounds lie ten days later.
\<close>

definition epoch_row :: MeetingRow where
  "epoch_row = row_at (str ''d'') (Some 0) (Some 0) None (Some (str ''hi''))"

definition pending_epoch_far :: pending where
  "pending_epoch_far =
     (pending_on (str ''1970-01-01''))
       \<lparr>pd_quill_start_ms := Some 864000000, pd_quill_end_ms := Some 864000000\<rparr>"

text \<open>A candidate 100 hours away from the centre, with no participants.\<close>

definition distant_row :: MeetingRow where
  "distant_row =
     row_at (str ''e'') (Some (noon_2024_03_10 + 100 * 3600000)) (Some (noon_2024_03_10 + 100 * 3600000))
       None (Some (str ''hi''))"

text \<open>A pending record with a start of 0 and no end.\<close>

definition pending_zero_start :: pending where
  "pending_zero_start = (pending_on (str ''2024-03-10''))\<lparr>pd_quill_start_ms := Some 0\<rparr>"

text \<open>
  A candidate whose roster shares a token with each wanted name, and none of the names.
\<close>

definition jane_bob_smith_row :: MeetingRow where
  "jane_bob_smith_row =
     row_at (str ''f'') (Some noon_2024_03_10) (Some noon_2024_03_10)
       (Some (str ''Jane Doe, Bob Smith'')) (Some (str ''hi''))"

text \<open>
  A snippet in curly quotes (U+201C, U+201D) and a candidate whose transcript holds the
  same words in plain quotes.
\<close>

definition curly_hi :: pystr where
  "curly_hi = [8220, 72, 105, 8221]"

definition plain_hi_row :: MeetingRow where
  "plain_hi_row =
     row_at (str ''g'') (Some noon_2024_03_10) (Some noon_2024_03_10) None (Some [34, 72, 105, 34])"

text \<open>Two blocks of two speakers, one recorded from \<^verbatim>\<open>mic\<close> and one from \<^verbatim>\<open>local\<close>.\<close>

definition two_local_blocks :: "block list" where
  "two_local_blocks =
     [plain_block (Some (str ''A'')) (Some (str ''mic'')) (Some (str ''Hello'')),
      plain_block (Some (str ''B'')) (Some (str ''local'')) (Some (str ''Hi there''))]"

section \<open>Properties of the title similarity\<close>

text \<open>
  The ratio of a sequence with itself is 1. On two equal sequences every cell of the scan
  is dominated by the diagonal cells of its row and of its column, so the scan ends on a
  diagonal block, which the two extension loops grow to the whole sequence.
\<close>

lemma j2len_pos:
  "0 < j2len a b alo blo bhi i j \<Longrightarrow> j < bhi \<and> a ! i = b ! j \<and> \<not> popular b (b ! j)"
  by (subst (asm) j2len.simps) (auto split: if_splits)

lemma j2len_step:
  "j2len a b alo blo bhi i j \<le> (if alo < i \<and> 0 < j then j2len a b alo blo bhi (i - 1) (j - 1) else 0) + 1"
  by (subst j2len.simps) auto

lemma j2len_same:
  "i < n \<Longrightarrow> \<not> popular s (s ! i) \<Longrightarrow>
   j2len s s 0 0 n i i = (if 0 < i then j2len s s 0 0 n (i - 1) (i - 1) else 0) + 1"
  by (subst j2len.simps) auto

lemma j2len_diag:
  "i < n \<Longrightarrow> j2len s s 0 0 n i j \<le> j2len s s 0 0 n i i \<and> j2len s s 0 0 n i j \<le> j2len s s 0 0 n j j"
proof (induction i arbitrary: j)
  case 0
  show ?case
  proof (cases "0 < j2len s s 0 0 n 0 j")
    case False
    then show ?thesis by simp
  next
    case True
    from j2len_pos [OF True] have p: "j < n" "s ! 0 = s ! j" "\<not> popular s (s ! j)" by simp_all
    from j2len_step [of s s 0 0 n 0 j] have "j2len s s 0 0 n 0 j \<le> 1" by simp
    moreover from p 0 have "1 \<le> j2len s s 0 0 n 0 0" by (simp add: j2len_same)
    moreover from p have "1 \<le> j2len s s 0 0 n j j" by (simp add: j2len_same)
    ultimately show ?thesis by simp
  qed
next
  case (Suc i)
  show ?case
  proof (cases "0 < j2len s s 0 0 n (Suc i) j")
    case False
    then show ?thesis by simp
  next
    case True
    from j2len_pos [OF True] have p: "j < n" "s ! Suc i = s ! j" "\<not> popular s (s ! j)" by simp_all
    from Suc.prems have i: "i < n" by simp
    have ii: "j2len s s 0 0 n (Suc i) (Suc i) = j2len s s 0 0 n i i + 1"
      using p Suc.prems by (simp add: j2len_same)
    have jj: "j2len s s 0 0 n j j = (if 0 < j then j2len s s 0 0 n (j - 1) (j - 1) else 0) + 1"
      using p by (simp add: j2len_same)
    have st: "j2len s s 0 0 n (Suc i) j \<le> (if 0 < j then j2len s s 0 0 n i (j - 1) else 0) + 1"
      using j2len_step [of s s 0 0 n "Suc i" j] by (auto split: if_splits)
    from Suc.IH [OF i, of "j - 1"] st ii jj show ?thesis by (auto split: if_splits)
  qed
qed

lemma scan_cell_diag:
  assumes inv: "diag_ok s i j best" and i: "i < length s" and j: "j < length s"
  shows "diag_ok s i (Suc j) (scan_cell s s 0 0 (length s) i best j)"
proof (cases "snd (snd best) < j2len s s 0 0 (length s) i j")
  case False
  then have "scan_cell s s 0 0 (length s) i best j = best" by (simp add: scan_cell_def)
  with inv False show ?thesis by (auto simp: diag_ok_def less_Suc_eq)
next
  case True
  let ?k = "j2len s s 0 0 (length s) i j"
  from j2len_diag [OF i, of s j] have d: "?k \<le> j2len s s 0 0 (length s) i i" "?k \<le> j2len s s 0 0 (length s) j j"
    by simp_all
  have "i = j"
  proof (rule ccontr)
    assume "i \<noteq> j"
    then consider "j < i" | "i < j" by linarith
    then show False
    proof cases
      case 1
      with inv j have "j2len s s 0 0 (length s) j j \<le> snd (snd best)" by (simp add: diag_ok_def)
      with d True show False by simp
    next
      case 2
      with inv have "j2len s s 0 0 (length s) i i \<le> snd (snd best)" by (simp add: diag_ok_def)
      with d True show False by simp
    qed
  qed
  have kle: "?k \<le> i + 1" using j2len_le [of s s 0 0 "length s" i j] by simp
  from True have sc: "scan_cell s s 0 0 (length s) i best j = (i + 1 - ?k, j + 1 - ?k, ?k)"
    by (simp add: scan_cell_def Let_def)
  have dom: "n \<le> snd (snd best) \<Longrightarrow> n \<le> ?k" for n
    using True by simp
  have "fst best = fst (snd best)" "fst best + snd (snd best) \<le> length s"
    and rows: "\<forall>i' < i. \<forall>j < length s. j2len s s 0 0 (length s) i' j \<le> snd (snd best)"
    and cells: "\<forall>j' < j. j2len s s 0 0 (length s) i j' \<le> snd (snd best)"
    using inv by (simp_all add: diag_ok_def)
  have "\<forall>i' < i. \<forall>j < length s. j2len s s 0 0 (length s) i' j \<le> ?k"
    using rows dom by blast
  moreover have "\<forall>j' < Suc j. j2len s s 0 0 (length s) i j' \<le> ?k"
    using cells dom by (auto simp: less_Suc_eq)
  moreover have "i + 1 - ?k + ?k \<le> length s"
    using kle i by simp
  ultimately show ?thesis
    unfolding sc using \<open>i = j\<close> by (simp add: diag_ok_def)
qed

lemma scan_row_diag:
  assumes "diag_ok s i 0 best" "i < length s" "m \<le> length s"
  shows "diag_ok s i m (foldl (scan_cell s s 0 0 (length s) i) best [0..<m])"
  using assms(3)
proof (induction m)
  case 0
  with assms(1) show ?case by simp
next
  case (Suc m)
  then have "diag_ok s i m (foldl (scan_cell s s 0 0 (length s) i) best [0..<m])" by simp
  from scan_cell_diag [OF this assms(2)] Suc.prems show ?case by simp
qed

lemma scan_rows_diag_aux:
  "m \<le> length s \<Longrightarrow>
   diag_ok s m 0 (foldl (\<lambda>best i. foldl (scan_cell s s 0 0 (length s) i) best [0..<length s])
     (0, 0, 0) [0..<m])"
proof (induction m)
  case 0
  show ?case by (simp add: diag_ok_def)
next
  case (Suc m)
  let ?b = "foldl (\<lambda>best i. foldl (scan_cell s s 0 0 (length s) i) best [0..<length s]) (0, 0, 0) [0..<m]"
  from Suc have "diag_ok s m 0 ?b" by simp
  from scan_row_diag [OF this, of "length s"] Suc.prems
  have "diag_ok s m (length s) (foldl (scan_cell s s 0 0 (length s) m) ?b [0..<length s])" by simp
  then have "diag_ok s (Suc m) 0 (foldl (scan_cell s s 0 0 (length s) m) ?b [0..<length s])"
    by (auto simp: diag_ok_def less_Suc_eq)
  then show ?case by simp
qed

lemma scan_rows_same:
  "\<exists>d k. scan_rows s s 0 (length s) 0 (length s) = (d, d, k) \<and> d + k \<le> length s"
proof -
  from scan_rows_diag_aux [of "length s" s]
  have "diag_ok s (length s) 0 (scan_rows s s 0 (length s) 0 (length s))"
    by (simp add: scan_rows_def)
  then show ?thesis
    by (cases "scan_rows s s 0 (length s) 0 (length s)") (auto simp: diag_ok_def)
qed

lemma extend_left_same: "extend_left s s 0 0 (d, d, k) = (0, 0, d + k)"
proof (induction d arbitrary: k)
  case 0
  show ?case by (subst extend_left.simps) simp
next
  case (Suc d)
  have "extend_left s s 0 0 (Suc d, Suc d, k) = extend_left s s 0 0 (d, d, k + 1)"
    by (subst extend_left.simps) simp
  with Suc [of "k + 1"] show ?case by simp
qed

lemma extend_right_same:
  "k \<le> n \<Longrightarrow> extend_right s s n n (0, 0, k) = (0, 0, n)"
proof (induction "n - k" arbitrary: k)
  case 0
  then show ?case by (subst extend_right.simps) simp
next
  case (Suc x)
  then have "extend_right s s n n (0, 0, k) = extend_right s s n n (0, 0, k + 1)"
    by (subst extend_right.simps) simp
  moreover from Suc have "extend_right s s n n (0, 0, k + 1) = (0, 0, n)"
    by (intro Suc.hyps) auto
  ultimately show ?case by simp
qed

lemma find_longest_match_same:
  "find_longest_match s s 0 (length s) 0 (length s) = (0, 0, length s)"
proof -
  from scan_rows_same [of s] obtain d k
    where "scan_rows s s 0 (length s) 0 (length s) = (d, d, k)" "d + k \<le> length s" by blast
  then show ?thesis
    by (simp add: find_longest_match_def extend_left_same extend_right_same)
qed

lemma matching_total_same: "matching_total s s 0 (length s) 0 (length s) = length s"
  by (subst matching_total.simps) (simp only: find_longest_match_same prod.case, simp)

lemma ratio_same: "ratio s s = 1"
  by (simp add: ratio_def matching_total_same)

lemma calculate_component_similarity_same: "calculate_component_similarity c c \<le> 1"
proof -
  have "comp_participants c \<noteq> [] \<Longrightarrow> 0 < card (set (comp_participants c))"
    by (simp add: card_gt_0_iff)
  then show ?thesis
    by (auto simp: calculate_component_similarity_def Let_def ratio_same)
qed

lemma enhanced_title_matching_same: "enhanced_title_matching t t \<le> 1"
  using calculate_component_similarity_same [of "extract_title_components t"]
  by (simp add: enhanced_title_matching_def Let_def)

text \<open>
  Claim C9 (amended). For every title t whose normalised form is not empty,
  \<^verbatim>\<open>title_similarity(t, t)\<close> is 1. The claim as written, for every non-empty t, fails at
  titles that the normalisation empties (next but one theorem): the function returns 0
  as soon as one normalised title is empty.
\<close>

theorem title_similarity_same:
  "normalize_title t \<noteq> [] \<Longrightarrow> title_similarity t t = 1"
  using enhanced_title_matching_same [of "normalize_title t"]
  by (simp add: title_similarity_def Let_def ratio_same max_def)

text \<open>The theorem at the title \<open>Jane 1:1\<close>.\<close>

theorem title_similarity_same_witness:
  "normalize_title (str ''Jane 1:1'') \<noteq> [] \<and> title_similarity (str ''Jane 1:1'') (str ''Jane 1:1'') = 1"
proof -
  have h: "normalize_title (str ''Jane 1:1'') \<noteq> []" by code_simp
  from title_similarity_same [OF h] h show ?thesis by simp
qed

text \<open>
  The title \<open>!\<close> is not empty, its normalised form is, and its similarity with itself
  is 0.
\<close>

theorem title_similarity_blank_counterexample:
  "str ''!'' \<noteq> [] \<and> title_similarity (str ''!'') (str ''!'') = 0"
  by code_simp

section \<open>Properties of the scoring engine\<close>

lemma weights_literal:
  "weights_for (str ''1-on-1'') = (0.70, 0.15, 0.15)"
  "weights_for (str ''internal-sync'') = (0.65, 0.20, 0.15)"
  "weights_for (str ''external-sync'') = (0.75, 0.10, 0.15)"
  "weights_for (str ''note-to-self'') = (0.60, 0.10, 0.30)"
  "weights_for (str ''default'') = (0.60, 0.25, 0.15)"
  by (simp_all add: weights_for_def WEIGHT_TABLE_def str_def)

lemma compute_score_returns:
  "same_local_calendar_day meeting_date (m_start m) = Inr same_day \<Longrightarrow>
   \<exists>score parts. compute_score e session_type meeting_date needle_title desired_participants
      center_ms lo_ms hi_ms m cur transcript_snippet = Inr (score, parts)"
  by (simp add: compute_score_def Let_def)

text \<open>
  Claim C1. Whenever \<^verbatim>\<open>compute_score\<close> returns, the composite is the weighted sum plus
  the additive adjustments. With (w_overlap, w_title, w_time) the weights that the table
  gives for the session type: when the transcript snippet is a non-empty string the
  composite is (0.2 * w_overlap) * overlap + (0.2 * w_title) * title_score +
  (0.5 * w_time) * time_score + 0.60 * transcript_score + same_day_bonus + set_bonus -
  set_penalty - group_size_penalty; otherwise it is w_overlap * overlap + w_title *
  title_score + w_time * time_score plus the same adjustments. The components are the
  unrounded values that the function computes from its arguments. (The table entries are
  \<open>weights_literal\<close>; a session type outside the table takes the default entry;
  \<^verbatim>\<open>compute_score\<close> returns whenever the same-day test does, \<open>compute_score_returns\<close>.)
\<close>

theorem compute_score_composite:
  assumes "compute_score e session_type meeting_date needle_title desired_participants
             center_ms lo_ms hi_ms m cur transcript_snippet = Inr (score, parts)"
    and "weights_for session_type = (w_overlap, w_title, w_time)"
  shows "\<exists>same_day. same_local_calendar_day meeting_date (m_start m) = Inr same_day \<and>
     score =
       (let dbp = derive_db_participants e m cur;
            desired = stripped_desired desired_participants;
            ov = participant_overlap_fuzzy (cfg e) desired dbp;
            ts = title_similarity (or_empty needle_title) (or_empty (m_title m));
            tm = time_score center_ms lo_ms hi_ms m;
            tr = transcript_score e transcript_snippet m;
            sdb = (if same_day then 0.10 else 0);
            sb = fst (set_adjustments session_type desired dbp);
            sp = snd (set_adjustments session_type desired dbp);
            gsp = group_size_penalty_of session_type dbp
        in if truthy transcript_snippet
           then (0.2 * w_overlap) * ov + (0.2 * w_title) * ts + (0.5 * w_time) * tm + 0.60 * tr
                + sdb + sb - sp - gsp
           else w_overlap * ov + w_title * ts + w_time * tm + sdb + sb - sp - gsp)"
proof -
  from assms(1) obtain same_day
    where sd: "same_local_calendar_day meeting_date (m_start m) = Inr same_day"
    by (cases "same_local_calendar_day meeting_date (m_start m)")
      (simp_all add: compute_score_def Let_def)
  from assms(1) sd have
    "score = composite_of session_type transcript_snippet
       (participant_overlap_fuzzy (cfg e) (stripped_desired desired_participants)
          (derive_db_participants e m cur))
       (title_similarity (or_empty needle_title) (or_empty (m_title m)))
       (time_score center_ms lo_ms hi_ms m)
       (transcript_score e transcript_snippet m)
       (if same_day then 0.10 else 0)
       (fst (set_adjustments session_type (stripped_desired desired_participants)
          (derive_db_participants e m cur)))
       (snd (set_adjustments session_type (stripped_desired desired_participants)
          (derive_db_participants e m cur)))
       (group_size_penalty_of session_type (derive_db_participants e m cur))"
    by (simp add: compute_score_def Let_def)
  with assms(2) sd show ?thesis
    by (simp add: composite_of_def Let_def mult.commute)
qed

text \<open>
  The theorem at a two-person meeting at noon of the day, wanted by a 1-on-1 record with
  the same two names and no snippet: the score is 0.70 * 1 + 0.15 * 0 + 0.15 * 1 + 0.10 +
  0.37 = 1.32.
\<close>

theorem compute_score_composite_witness:
  "\<exists>score parts same_day.
     compute_score text_env (str ''1-on-1'') (str ''2024-03-10'') None
       [str ''Jane Doe'', str ''Bob Roe'']
       noon_2024_03_10 (noon_2024_03_10 - 36 * 3600000) (noon_2024_03_10 + 36 * 3600000)
       jane_bob_row None None = Inr (score, parts)
     \<and> score = 33 / 25
     \<and> same_local_calendar_day (str ''2024-03-10'') (m_start jane_bob_row) = Inr same_day"
proof -
  let ?r = "compute_score text_env (str ''1-on-1'') (str ''2024-03-10'') None
       [str ''Jane Doe'', str ''Bob Roe'']
       noon_2024_03_10 (noon_2024_03_10 - 36 * 3600000) (noon_2024_03_10 + 36 * 3600000)
       jane_bob_row None None"
  have "map_sum id fst ?r = Inr (33 / 25)" by code_simp
  then obtain score parts where r: "?r = Inr (score, parts)" and s: "score = 33 / 25"
    by (cases ?r) auto
  from compute_score_composite [OF r weights_literal(1)] obtain same_day
    where "same_local_calendar_day (str ''2024-03-10'') (m_start jane_bob_row) = Inr same_day"
    by blast
  with r s show ?thesis by blast
qed

text \<open>
  The centre that the selector passes to \<^verbatim>\<open>compute_score\<close> for the date 1970-01-01:
  the middle of the window without Quill bounds, their midpoint with them.
\<close>

lemma window_center_1970:
  "window_center (- 86400000) 172800000
     (pd_quill_start_ms (pending_on (str ''1970-01-01'')))
     (pd_quill_end_ms (pending_on (str ''1970-01-01''))) = Inr 43200000"
  "window_center (- 86400000) 172800000
     (pd_quill_start_ms pending_epoch_far) (pd_quill_end_ms pending_epoch_far) = Inr 864000000"
  by code_simp+

text \<open>
  Claim C6 (the code departs from it). A candidate whose midpoint is 0 gets the time
  score 1 wherever the window centre is: the score is computed from
  \<^verbatim>\<open>(t_mid or center_ms)\<close>, which takes the centre when the midpoint is 0. For the
  date 1970-01-01 the window is -86400000 to 172800000 with the centre 43200000
  (\<open>window_center_1970\<close>); step 2 fetches the meeting that starts and ends at 0, its
  midpoint is the average 0, and \<^verbatim>\<open>compute_score\<close> gives it the time score 1, where
  the claim's formula max(0, 1 - |midpoint - centre| / span) gives 5/6. With Quill bounds
  ten days later the centre is 864000000, the same meeting is fetched and scores 1 again,
  where the formula gives 0.
\<close>

theorem time_score_midpoint_zero:
  "step2_candidates text_env (store_of [epoch_row]) (pending_on (str ''1970-01-01'')) = Inr [epoch_row]
   \<and> local_day_bounds_ms (cfg text_env) (pd_meeting_date (pending_on (str ''1970-01-01'')))
       = Inr (- 86400000, 172800000)
   \<and> m_start epoch_row = Some 0 \<and> m_end epoch_row = Some 0
   \<and> t_mid 43200000 epoch_row = 0
   \<and> time_score 43200000 (- 86400000) 172800000 epoch_row = 1
   \<and> map_sum id (\<lambda>r. time_score_r (snd r))
        (compute_score text_env (str ''default'') (str ''1970-01-01'') (Some (str ''x'')) []
           43200000 (- 86400000) 172800000 epoch_row None None) = Inr 1
   \<and> max 0 (1 - \<bar>real_of_int (0 - 43200000)\<bar> / real_of_int (max 1 (172800000 - (- 86400000))))
       = (5 / 6 :: real)
   \<and> step2_candidates text_env (store_of [epoch_row]) pending_epoch_far = Inr [epoch_row]
   \<and> time_score 864000000 (- 86400000) 172800000 epoch_row = 1
   \<and> max 0 (1 - \<bar>real_of_int (0 - 864000000)\<bar> / real_of_int (max 1 (172800000 - (- 86400000))))
       = (0 :: real)"
  by code_simp

text \<open>
  Claim C7 (the code departs from it). The quote replacement leaves curly quotes as they
  are: a snippet \<open>Hi\<close> in curly quotes stays unchanged by the cleaning, and against a
  candidate whose transcript is \<open>Hi\<close> in plain quotes it scores 1/2, where the same
  snippet in plain quotes scores 1.
\<close>

theorem transcript_score_curly_quotes:
  "snippet_clean curly_hi = curly_hi
   \<and> transcript_score text_env (Some curly_hi) plain_hi_row = 1 / 2
   \<and> transcript_score text_env (Some [34, 72, 105, 34]) plain_hi_row = 1"
  by code_simp

text \<open>
  Claim C10. The composite is not clamped to the interval from 0 to 1: a 1-on-1 record
  whose two wanted names are exactly the roster of a meeting at noon of the same day
  scores 1.32, a record with three wanted names against a distant meeting with no roster
  scores -0.35; and every confidence threshold lies between 0.35 and 0.45.
\<close>

theorem composite_not_clamped:
  "map_sum id fst (compute_score text_env (str ''1-on-1'') (str ''2024-03-10'') None
           [str ''Jane Doe'', str ''Bob Roe'']
           noon_2024_03_10 (noon_2024_03_10 - 36 * 3600000) (noon_2024_03_10 + 36 * 3600000)
           jane_bob_row None None) = Inr (33 / 25)
   \<and> map_sum id fst (compute_score text_env (str ''default'') (str ''2024-03-10'') None
           [str ''Ann'', str ''Ben'', str ''Cy'']
           noon_2024_03_10 (noon_2024_03_10 - 36 * 3600000) (noon_2024_03_10 + 36 * 3600000)
           distant_row None None) = Inr (- (7 / 20))
   \<and> (1::real) < 33 / 25 \<and> - (7 / 20) < (0::real)
   \<and> list_all (\<lambda>kv. 0.35 \<le> snd kv \<and> snd kv \<le> 0.45) CONF_THRESHOLDS"
  by code_simp

section \<open>Properties of the selector\<close>

lemma strptime_2024_03_10: "strptime_ymd (str ''2024-03-10'') = Some (2024, 3, 10)"
  by code_simp

text \<open>
  Claim C2. When the pending record carries a candidate identifier (a non-empty string)
  and the store returns for it a row whose transcript is not empty, the selector returns
  that row with the reason \<open>id\<close> and no debug rows, whatever else the store holds and
  whatever the other fields of the record are.
\<close>

theorem find_best_candidate_by_id:
  assumes "truthy (pd_quill_meeting_id pd)"
    and "fetch_by_id st (or_empty (pd_quill_meeting_id pd)) = Some row"
    and "truthy (m_audio_transcript row)"
  shows "find_best_candidate e (Some st) pd = Inr (Some row, Some (str ''id''), [])"
  using assms by (simp add: find_best_candidate_def Let_def)

text \<open>
  The theorem at a store of two meetings and a record that names the second one; the
  record's date is not even a date.
\<close>

theorem find_best_candidate_by_id_witness:
  "find_best_candidate text_env (Some (store_of [jane_bob_row, late_row]))
     ((pending_on (str ''not a date''))\<lparr>pd_quill_meeting_id := Some (str ''b'')\<rparr>)
   = Inr (Some late_row, Some (str ''id''), [])"
proof -
  let ?pd = "(pending_on (str ''not a date''))\<lparr>pd_quill_meeting_id := Some (str ''b'')\<rparr>"
  let ?st = "store_of [jane_bob_row, late_row]"
  have 1: "truthy (pd_quill_meeting_id ?pd)" by code_simp
  have 2: "fetch_by_id ?st (or_empty (pd_quill_meeting_id ?pd)) = Some late_row" by code_simp
  have 3: "truthy (m_audio_transcript late_row)" by code_simp
  show ?thesis by (rule find_best_candidate_by_id [OF 1 2 3])
qed

text \<open>
  Claim C3 (the code departs from it). A pending record with a valid date, no candidate
  identifier, a start of 0 and no end makes the selector raise TypeError, with any store
  and any configuration: the guard tests the bounds with \<^verbatim>\<open>is not None\<close>, the
  expression after it with their truth values, and \<^verbatim>\<open>int(None)\<close> raises.
\<close>

theorem find_best_candidate_raises:
  "find_best_candidate e (Some st) pending_zero_start = Inl TypeError"
  by (simp add: find_best_candidate_def pending_zero_start_def pending_on_def truthy_def
      or_empty_def local_day_bounds_ms_def window_center_def int_truthy_def Let_def
      strptime_2024_03_10)






text \<open>The pre-filter, with the count of the intersection written as emptiness.\<close>

lemma prefilter_skips_iff:
  "prefilter_skips desired_participants transcript_snippet cand_parts \<longleftrightarrow>
     desired_participants \<noteq> [] \<and> \<not> truthy transcript_snippet
     \<and> name_set desired_participants \<inter> name_set cand_parts = {}
     \<and> 2 \<le> card (name_set desired_participants)"
  by (simp add: prefilter_skips_def name_set_def)

text \<open>
  Claim C5 (amended). When the candidate loop returns, the rows it has scored are, in
  order, the candidates with a transcript that the pre-filter keeps. The pre-filter
  drops a candidate exactly when the desired participants are not empty, no transcript
  snippet is given, the desired names have at least two distinct lower-cased forms, and
  no lower-cased desired name is equal to a lower-cased name of the candidate: the test
  is equality of whole names without regard to case, not the fuzzy token overlap. With
  a transcript snippet present no candidate is dropped on participant grounds.
\<close>

theorem score_candidates_rows:
  assumes "score_candidates e st session_type meeting_date look_title desired_participants
             center lo_ms hi_ms transcript_snippet cands = Inr scored"
  shows "map (\<lambda>t. fst (snd t)) scored =
           filter (\<lambda>m. truthy (m_audio_transcript m)
                        \<and> \<not> (desired_participants \<noteq> [] \<and> \<not> truthy transcript_snippet
                              \<and> name_set desired_participants
                                  \<inter> name_set (derive_db_participants e m (Some (contact_names st))) = {}
                              \<and> 2 \<le> card (name_set desired_participants))) cands
         \<and> (truthy transcript_snippet \<longrightarrow>
              map (\<lambda>t. fst (snd t)) scored = filter (\<lambda>m. truthy (m_audio_transcript m)) cands)"
proof -
  have "map (\<lambda>t. fst (snd t)) scored =
           filter (\<lambda>m. truthy (m_audio_transcript m)
                        \<and> \<not> prefilter_skips desired_participants transcript_snippet
                              (derive_db_participants e m (Some (contact_names st)))) cands"
    using assms
  proof (induction cands arbitrary: scored)
    case Nil
    then show ?case by simp
  next
    case (Cons m cands)
    show ?case
    proof (cases "\<not> truthy (m_audio_transcript m)
         \<or> prefilter_skips desired_participants transcript_snippet
              (derive_db_participants e m (Some (contact_names st)))")
      case True
      with Cons show ?thesis by auto
    next
      case False
      with Cons.prems obtain score parts rest where
        "score_candidates e st session_type meeting_date look_title desired_participants
             center lo_ms hi_ms transcript_snippet cands = Inr rest"
        "scored = (score, m, parts) # rest"
        by (auto split: sum.splits)
      with Cons.IH [of rest] False show ?thesis by simp
    qed
  qed
  then show ?thesis by (auto simp: prefilter_skips_iff intro: filter_cong)
qed

text \<open>
  The theorem at two candidates and the wanted names \<open>Jane\<close> and \<open>Bob Roe\<close>: the
  roster \<open>Jane Doe, Bob Smith\<close> has neither name and is dropped, the roster
  \<open>Jane Doe, Bob Roe\<close> has the second and is scored.
\<close>

theorem score_candidates_rows_witness:
  "\<exists>scored.
     score_candidates text_env (store_of [jane_bob_smith_row, jane_bob_row]) (str ''default'')
       (str ''2024-03-10'') None [str ''Jane'', str ''Bob Roe'']
       noon_2024_03_10 (noon_2024_03_10 - 36 * 3600000) (noon_2024_03_10 + 36 * 3600000)
       None [jane_bob_smith_row, jane_bob_row] = Inr scored
     \<and> map (\<lambda>t. fst (snd t)) scored = [jane_bob_row]"
proof -
  let ?r = "score_candidates text_env (store_of [jane_bob_smith_row, jane_bob_row]) (str ''default'')
       (str ''2024-03-10'') None [str ''Jane'', str ''Bob Roe'']
       noon_2024_03_10 (noon_2024_03_10 - 36 * 3600000) (noon_2024_03_10 + 36 * 3600000)
       None [jane_bob_smith_row, jane_bob_row]"
  have "map_sum id (\<lambda>x. ()) ?r = Inr ()" by code_simp
  then obtain scored where r: "?r = Inr scored"
    by (cases ?r) auto
  have f: "filter (\<lambda>m. truthy (m_audio_transcript m)
                        \<and> \<not> ([str ''Jane'', str ''Bob Roe''] \<noteq> [] \<and> \<not> truthy None
                              \<and> name_set [str ''Jane'', str ''Bob Roe'']
                                  \<inter> name_set (derive_db_participants text_env m
                                      (Some (contact_names (store_of [jane_bob_smith_row, jane_bob_row])))) = {}
                              \<and> 2 \<le> card (name_set [str ''Jane'', str ''Bob Roe''])))
           [jane_bob_smith_row, jane_bob_row] = [jane_bob_row]"
    by code_simp
  from score_candidates_rows [OF r] have m: "map (\<lambda>t. fst (snd t)) scored = [jane_bob_row]"
    unfolding f by (rule conjunct1)
  show ?thesis
  proof (intro exI conjI)
    show "?r = Inr scored" by (rule r)
    show "map (\<lambda>t. fst (snd t)) scored = [jane_bob_row]" by (rule m)
  qed
qed

text \<open>
  The claim as written fails for the wanted names \<open>Jane\<close> and \<open>Bob\<close> and a candidate
  with the roster \<open>Jane Doe, Bob Smith\<close>: the fuzzy overlap is 1, not zero, and the
  candidate is skipped all the same.
\<close>

theorem prefilter_fuzzy_counterexample:
  "participant_overlap_fuzzy default_config [str ''Jane'', str ''Bob'']
       (derive_db_participants text_env jane_bob_smith_row (Some (contact_names (store_of [jane_bob_smith_row])))) = 1
   \<and> truthy (m_audio_transcript jane_bob_smith_row)
   \<and> score_candidates text_env (store_of [jane_bob_smith_row]) (str ''default'')
       (str ''2024-03-10'') None [str ''Jane'', str ''Bob'']
       noon_2024_03_10 (noon_2024_03_10 - 36 * 3600000) (noon_2024_03_10 + 36 * 3600000)
       None [jane_bob_smith_row] = Inr []"
  by code_simp

section \<open>Properties of the speaker attribution\<close>

text \<open>
  Claim C8 (the code departs from it). With one block of speaker A recorded from
  \<^verbatim>\<open>mic\<close> and one block of speaker B recorded from \<^verbatim>\<open>local\<close>, no labels and no
  overrides, both keys are bound to the canonical self-name: A as the anchor, B by the
  test of its source tag.
\<close>

theorem speaker_map_two_self:
  "first_appearance_mapping default_config two_local_blocks [str ''Your Name''] [] None None
     = [(str ''id:A'', str ''Your Name''), (str ''id:B'', str ''Your Name'')]"
  by code_simp

end
